theory Spec2Isabelle
  imports Main "HOL-Library.Word"
begin

unbundle bit_operations_syntax

section \<open>The difficulty predicate\<close>

text \<open>
  A \<^verbatim>\<open>Buffer\<close> is a sequence of unsigned bytes.  The count of required zero bits is a
  non-negative integer.
\<close>

type_synonym byte = "8 word"

text \<open>
  The inner loop \<^verbatim>\<open>for (let bit = 7; bit >= 0; bit--)\<close> of \<^verbatim>\<open>hasLeadingZeroBits\<close>.
  The third argument is the number of bit positions still to visit, so \<open>Suc k\<close>
  means the loop variable \<^verbatim>\<open>bit\<close> holds \<open>k\<close>, and \<open>0\<close> means the loop condition
  \<^verbatim>\<open>bit >= 0\<close> has failed.  \<open>Inl r\<close> is a \<^verbatim>\<open>return r\<close> out of the whole function,
  \<open>Inr count\<close> the normal end of the inner loop with the running count.
\<close>

fun scanByte :: "byte \<Rightarrow> nat \<Rightarrow> nat \<Rightarrow> nat \<Rightarrow> bool + nat" where
  "scanByte byte zeros 0 count = Inr count"
| "scanByte byte zeros (Suc k) count =
     (if (drop_bit k byte AND 1) = 0
      then (let count' = count + 1
            in if count' \<ge> zeros then Inl True
               else scanByte byte zeros k count')
      else Inl (count \<ge> zeros))"

text \<open>
  The outer loop \<^verbatim>\<open>for (let i = 0; i < hashBuffer.length; i++)\<close>, over the bytes that
  remain, and the final \<^verbatim>\<open>return count >= zeros\<close>.
\<close>

fun scanBuffer :: "byte list \<Rightarrow> nat \<Rightarrow> nat \<Rightarrow> bool" where
  "scanBuffer [] zeros count = (count \<ge> zeros)"
| "scanBuffer (byte # rest) zeros count =
     (case scanByte byte zeros 8 count of
        Inl r \<Rightarrow> r
      | Inr count' \<Rightarrow> scanBuffer rest zeros count')"

definition hasLeadingZeroBits :: "byte list \<Rightarrow> nat \<Rightarrow> bool" where
  "hasLeadingZeroBits hashBuffer zeros = scanBuffer hashBuffer zeros 0"

text \<open>
  The predicate as the specification words it: the bits of the digest from the most
  significant bit of the first byte onward, and the count of zero bits before the first
  one bit.
\<close>

definition bitsMSB :: "byte \<Rightarrow> bool list" where
  "bitsMSB b = map (bit b) [7, 6, 5, 4, 3, 2, 1, 0]"

definition leadingZeroBits :: "byte list \<Rightarrow> nat" where
  "leadingZeroBits digest = length (takeWhile Not (concat (map bitsMSB digest)))"

text \<open>The \<open>k\<close> low bits of a byte, from bit \<open>k - 1\<close> down to bit 0.\<close>

fun bitsBelow :: "byte \<Rightarrow> nat \<Rightarrow> bool list" where
  "bitsBelow b 0 = []"
| "bitsBelow b (Suc k) = bit b k # bitsBelow b k"


section \<open>SHA-256\<close>

text \<open>
  The program obtains its digests from \<^verbatim>\<open>crypto.createHash("sha256")\<close> of the Node.js
  runtime.  The function is defined here after FIPS 180-4, on 32-bit words held as
  integers with the reduction modulo \<open>2 ^ 32\<close> written out.  The round constants
  and the initial hash value are given in decimal.
\<close>

definition K256 :: "int list" where
  "K256 = [
    1116352408, 1899447441, 3049323471, 3921009573, 961987163, 1508970993,
    2453635748, 2870763221, 3624381080, 310598401, 607225278, 1426881987,
    1925078388, 2162078206, 2614888103, 3248222580, 3835390401, 4022224774,
    264347078, 604807628, 770255983, 1249150122, 1555081692, 1996064986,
    2554220882, 2821834349, 2952996808, 3210313671, 3336571891, 3584528711,
    113926993, 338241895, 666307205, 773529912, 1294757372, 1396182291,
    1695183700, 1986661051, 2177026350, 2456956037, 2730485921, 2820302411,
    3259730800, 3345764771, 3516065817, 3600352804, 4094571909, 275423344,
    430227734, 506948616, 659060556, 883997877, 958139571, 1322822218,
    1537002063, 1747873779, 1955562222, 2024104815, 2227730452, 2361852424,
    2428436474, 2756734187, 3204031479, 3329325298]"

definition H0 :: "int list" where
  "H0 = [1779033703, 3144134277, 1013904242, 2773480762,
         1359893119, 2600822924, 528734635, 1541459225]"

definition add32 :: "int \<Rightarrow> int \<Rightarrow> int" where
  "add32 x y = (x + y) mod 4294967296"

definition rotr :: "nat \<Rightarrow> int \<Rightarrow> int" where
  "rotr n x = (x div 2 ^ n) + (x mod 2 ^ n) * 2 ^ (32 - n)"

definition ssig0 :: "int \<Rightarrow> int" where
  "ssig0 x = rotr 7 x XOR rotr 18 x XOR (x div 2 ^ 3)"

definition ssig1 :: "int \<Rightarrow> int" where
  "ssig1 x = rotr 17 x XOR rotr 19 x XOR (x div 2 ^ 10)"

definition bsig0 :: "int \<Rightarrow> int" where
  "bsig0 x = rotr 2 x XOR rotr 13 x XOR rotr 22 x"

definition bsig1 :: "int \<Rightarrow> int" where
  "bsig1 x = rotr 6 x XOR rotr 11 x XOR rotr 25 x"

definition ch :: "int \<Rightarrow> int \<Rightarrow> int \<Rightarrow> int" where
  "ch x y z = (x AND y) XOR ((4294967295 - x) AND z)"

definition maj :: "int \<Rightarrow> int \<Rightarrow> int \<Rightarrow> int" where
  "maj x y z = (x AND y) XOR (x AND z) XOR (y AND z)"

text \<open>Four bytes, most significant first, make one word.\<close>

fun be32 :: "int list \<Rightarrow> int list" where
  "be32 (a # b # c # d # rest) = (((a * 256 + b) * 256 + c) * 256 + d) # be32 rest"
| "be32 _ = []"

text \<open>
  The message schedule is kept as a window of sixteen words: the head is the word of
  the current round, and each round appends the word sixteen rounds ahead.
\<close>

definition nextW :: "int list \<Rightarrow> int" where
  "nextW w = add32 (add32 (ssig1 (w ! 14)) (w ! 9)) (add32 (ssig0 (w ! 1)) (w ! 0))"

definition T1 :: "int \<Rightarrow> int \<Rightarrow> int list \<Rightarrow> int" where
  "T1 k w s =
     add32 (add32 (add32 (s ! 7) (bsig1 (s ! 4))) (ch (s ! 4) (s ! 5) (s ! 6))) (add32 k w)"

definition T2 :: "int list \<Rightarrow> int" where
  "T2 s = add32 (bsig0 (s ! 0)) (maj (s ! 0) (s ! 1) (s ! 2))"

definition step :: "int \<Rightarrow> int \<Rightarrow> int list \<Rightarrow> int list" where
  "step t1 t2 s =
     [add32 t1 t2, s ! 0, s ! 1, s ! 2, add32 (s ! 3) t1, s ! 4, s ! 5, s ! 6]"

fun rounds :: "int list \<Rightarrow> int list \<Rightarrow> int list \<Rightarrow> int list" where
  "rounds [] w s = s"
| "rounds (k # ks) w s = rounds ks (tl w @ [nextW w]) (step (T1 k (hd w) s) (T2 s) s)"

definition compress :: "int list \<Rightarrow> int list \<Rightarrow> int list" where
  "compress s block = map2 add32 s (rounds K256 (be32 block) s)"

function blocks :: "int list \<Rightarrow> int list \<Rightarrow> int list" where
  "blocks s bs = (if bs = [] then s else blocks (compress s (take 64 bs)) (drop 64 bs))"
  by pat_completeness auto
termination
  by (relation "measure (\<lambda>(s, bs). length bs)") auto

declare blocks.simps [simp del]

definition be64 :: "int \<Rightarrow> int list" where
  "be64 n = map (\<lambda>i. (n div 256 ^ i) mod 256) [7, 6, 5, 4, 3, 2, 1, 0]"

definition pad :: "int list \<Rightarrow> int list" where
  "pad m = m @ [128] @ replicate ((119 - length m mod 64) mod 64) 0
             @ be64 (int (8 * length m))"

definition unbe32 :: "int \<Rightarrow> byte list" where
  "unbe32 x = map (\<lambda>i. of_int ((x div 256 ^ i) mod 256)) [3, 2, 1, 0]"

definition sha256 :: "byte list \<Rightarrow> byte list" where
  "sha256 m = concat (map unbe32 (blocks H0 (pad (map uint m))))"

section \<open>Strings, numbers and values of the runtime\<close>

text \<open>
  A string of the program is modelled by a \<^typ>\<open>string\<close>: its characters are the code
  units below 256.  \<^verbatim>\<open>update\<close> hashes the UTF-8 encoding of a string, which is one
  byte for a unit below 128 and two bytes for the others.
\<close>

definition utf8_char :: "char \<Rightarrow> byte list" where
  "utf8_char c =
     (let n = (of_char c :: nat)
      in if n < 128 then [of_nat n]
         else [of_nat (192 + n div 64), of_nat (128 + n mod 64)])"

definition utf8 :: "string \<Rightarrow> byte list" where
  "utf8 s = concat (map utf8_char s)"

text \<open>\<^verbatim>\<open>crypto.createHash("sha256").update(s).digest()\<close> for a string \<open>s\<close>.\<close>

definition sha256_digest :: "string \<Rightarrow> byte list" where
  "sha256_digest s = sha256 (utf8 s)"

text \<open>The \<^verbatim>\<open>"hex"\<close> encoding of a buffer: two lowercase digits for each byte.\<close>

definition hexDigit :: "nat \<Rightarrow> char" where
  "hexDigit n = ''0123456789abcdef'' ! n"

definition toHex :: "byte list \<Rightarrow> string" where
  "toHex bs = concat (map (\<lambda>b. [hexDigit (unat b div 16), hexDigit (unat b mod 16)]) bs)"

text \<open>
  The text of an integer-valued number, as string concatenation coerces it: the decimal
  digits, after a minus sign for a negative number.  This is the text that the runtime
  gives for the integers it holds exactly and prints in full, those of magnitude up to
  \<open>2 ^ 54\<close>; from \<open>10 ^ 21\<close> on the runtime prints an exponent instead.  The
  statements below bound the numbers of a file by \<open>2 ^ 53\<close>.
\<close>

definition decDigit :: "nat \<Rightarrow> char" where
  "decDigit n = ''0123456789'' ! n"

fun digits :: "nat \<Rightarrow> string" where
  "digits n = (if n < 10 then [decDigit n] else digits (n div 10) @ [decDigit (n mod 10)])"

declare digits.simps [simp del]

definition numberToString :: "int \<Rightarrow> string" where
  "numberToString i = (if i < 0 then CHR ''-'' # digits (nat (- i)) else digits (nat i))"

text \<open>
  The values that the fields of a parsed block hold: a string, an integer-valued
  number, or \<^verbatim>\<open>undefined\<close> for a property that is absent.  \<open>NaN\<close> is the number that
  arithmetic on \<^verbatim>\<open>undefined\<close> yields.  A number \<open>Number n\<close> stands for the double of
  value \<open>n\<close>.  \<^verbatim>\<open>JSON.parse\<close> reads an integer of magnitude up to \<open>2 ^ 53\<close> as that
  very double and rounds larger ones, so a number of a file is \<open>Number n\<close> only for
  \<open>\<bar>n\<bar> \<le> 2 ^ 53\<close>; the statements about files carry this bound.  Fields that hold
  \<^verbatim>\<open>null\<close>, a boolean, a fraction, an array or an object are outside this model.
\<close>

datatype val = Undefined | Number int | NaN | String string

fun toString :: "val \<Rightarrow> string" where
  "toString Undefined = ''undefined''"
| "toString (Number n) = numberToString n"
| "toString NaN = ''NaN''"
| "toString (String s) = s"

text \<open>
  The sum of two doubles of integer value up to \<open>2 ^ 53\<close> in magnitude.  Up to
  \<open>2 ^ 53\<close> the exact sum is a double.  Beyond, up to \<open>2 ^ 54\<close>, the doubles are the
  even integers: an odd sum lies half-way between two of them and is rounded to the one
  with the even significand, which is the multiple of 4.
\<close>

definition roundToDouble :: "int \<Rightarrow> int" where
  "roundToDouble s =
     (if \<bar>s\<bar> \<le> 2 ^ 53 \<or> even s then s
      else if (s + 1) mod 4 = 0 then s + 1 else s - 1)"

text \<open>
  The operator \<^verbatim>\<open>+\<close>: when either operand is a string it concatenates the texts of
  both, otherwise it adds numbers, and \<^verbatim>\<open>undefined\<close> counts as \<open>NaN\<close>.
\<close>

fun jsAdd :: "val \<Rightarrow> val \<Rightarrow> val" where
  "jsAdd (String s) b = String (s @ toString b)"
| "jsAdd a (String t) = String (toString a @ t)"
| "jsAdd (Number x) (Number y) = Number (roundToDouble (x + y))"
| "jsAdd a b = NaN"

text \<open>The faults that the verifier can meet.\<close>

datatype error = IOError | SyntaxError | TypeError

text \<open>
  \<^verbatim>\<open>crypto.createHash("sha256").update(x).digest("hex")\<close>: \<^verbatim>\<open>update\<close> throws a
  \<^verbatim>\<open>TypeError\<close> when its argument is not a string (or a buffer, which no value here is).
\<close>

fun sha256_hex :: "val \<Rightarrow> error + string" where
  "sha256_hex (String s) = Inr (toHex (sha256_digest s))"
| "sha256_hex _ = Inl TypeError"

text \<open>\<^verbatim>\<open>computedHash === hash\<close>, where \<^verbatim>\<open>computedHash\<close> is a string.\<close>

fun strictEq :: "string \<Rightarrow> val \<Rightarrow> bool" where
  "strictEq s (String t) = (s = t)"
| "strictEq s _ = False"

section \<open>Persistence\<close>

text \<open>
  What \<^verbatim>\<open>JSON.parse\<close> returns: an object, as the map from its keys to their values;
  \<^verbatim>\<open>null\<close>; or another value (a number, a string, a boolean, an array), none of which
  has a property that the verifier reads.
\<close>

datatype json = JObject "string \<rightharpoonup> val" | JNull | JOther

text \<open>
  The text of a file either is a JSON text, identified with the value it denotes, or
  is not.  A path with no entry is a file that is missing or cannot be read.
\<close>

datatype content = NotJSON | JSONText json

type_synonym filesystem = "string \<rightharpoonup> content"

definition readFileSync :: "filesystem \<Rightarrow> string \<Rightarrow> error + content" where
  "readFileSync fs filePath = (case fs filePath of None \<Rightarrow> Inl IOError | Some t \<Rightarrow> Inr t)"

definition writeFileSync :: "filesystem \<Rightarrow> string \<Rightarrow> content \<Rightarrow> filesystem" where
  "writeFileSync fs filePath t = fs(filePath \<mapsto> t)"

fun JSON_parse :: "content \<Rightarrow> error + json" where
  "JSON_parse NotJSON = Inl SyntaxError"
| "JSON_parse (JSONText j) = Inr j"

definition JSON_stringify :: "json \<Rightarrow> content" where
  "JSON_stringify j = JSONText j"

text \<open>
  Reading a property in a destructuring pattern: a \<^verbatim>\<open>TypeError\<close> on \<^verbatim>\<open>null\<close>,
  \<^verbatim>\<open>undefined\<close> for a property that is absent.
\<close>

fun getProp :: "json \<Rightarrow> string \<Rightarrow> error + val" where
  "getProp (JObject m) key = Inr (case m key of None \<Rightarrow> Undefined | Some v \<Rightarrow> v)"
| "getProp JNull key = Inl TypeError"
| "getProp JOther key = Inr Undefined"

section \<open>The block miner\<close>

text \<open>
  The nonce is a number of the runtime, a double.  Up to \<open>2 ^ 53\<close> the statement
  \<^verbatim>\<open>nonce++\<close> adds one; at \<open>2 ^ 53\<close> the sum is not a double and rounds back to
  \<open>2 ^ 53\<close>, so the nonce stays.
\<close>

definition increment :: "nat \<Rightarrow> nat" where
  "increment nonce = (if nonce < 2 ^ 53 then nonce + 1 else nonce)"

text \<open>
  The loop \<^verbatim>\<open>while (true)\<close> of the first \<^verbatim>\<open>createBlock\<close>, from the current nonce on,
  and the object \<^verbatim>\<open>{ hash, data, nonce, timestamp }\<close> returned after it.  A search that
  never ends is the value \<open>None\<close>.  The progress line written to the console is not
  modelled.
\<close>

partial_function (option) search :: "string \<Rightarrow> int \<Rightarrow> nat \<Rightarrow> nat \<Rightarrow> json option" where
  "search data timestamp startingZeros nonce =
     (let combined = data @ numberToString timestamp @ numberToString (int nonce);
          hashBuffer = sha256_digest combined;
          hash = toHex hashBuffer
      in if hasLeadingZeroBits hashBuffer startingZeros
         then Some (JObject [''hash'' \<mapsto> String hash, ''data'' \<mapsto> String data,
                 ''nonce'' \<mapsto> Number (int nonce), ''timestamp'' \<mapsto> Number timestamp])
         else search data timestamp startingZeros (increment nonce))"

text \<open>
  \<^verbatim>\<open>createBlock\<close> of the first program; \<open>now\<close> is what \<^verbatim>\<open>Date.now()\<close> returns, a
  count of milliseconds, which the runtime keeps below \<open>2 ^ 53\<close> in magnitude.
\<close>

definition createBlock :: "int \<Rightarrow> string \<Rightarrow> nat \<Rightarrow> json option" where
  "createBlock now data startingZeros = search data now startingZeros 0"

text \<open>The loop and \<^verbatim>\<open>createBlock\<close> of the second program, which has no time stamp.\<close>

partial_function (option) search2 :: "string \<Rightarrow> nat \<Rightarrow> nat \<Rightarrow> json option" where
  "search2 data startingZeros nonce =
     (let combined = data @ numberToString (int nonce);
          hashBuffer = sha256_digest combined;
          hash = toHex hashBuffer
      in if hasLeadingZeroBits hashBuffer startingZeros
         then Some (JObject [''hash'' \<mapsto> String hash, ''data'' \<mapsto> String data,
                 ''nonce'' \<mapsto> Number (int nonce)])
         else search2 data startingZeros (increment nonce))"

definition createBlock2 :: "string \<Rightarrow> nat \<Rightarrow> json option" where
  "createBlock2 data startingZeros = search2 data startingZeros 0"

section \<open>The block verifier\<close>

definition bind :: "error + 'a \<Rightarrow> ('a \<Rightarrow> error + 'b) \<Rightarrow> error + 'b" where
  "bind m f = (case m of Inl e \<Rightarrow> Inl e | Inr x \<Rightarrow> f x)"

text \<open>
  The body of the \<^verbatim>\<open>try\<close> block of the first \<^verbatim>\<open>verifyBlock\<close>; \<open>Inl\<close> is an
  exception thrown in it.
\<close>

definition verifyBlock_try :: "filesystem \<Rightarrow> string \<Rightarrow> error + bool" where
  "verifyBlock_try fs filePath =
     bind (readFileSync fs filePath) (\<lambda>fileData.
     bind (JSON_parse fileData) (\<lambda>block.
     bind (getProp block ''hash'') (\<lambda>hash.
     bind (getProp block ''data'') (\<lambda>data.
     bind (getProp block ''nonce'') (\<lambda>nonce.
     bind (getProp block ''timestamp'') (\<lambda>timestamp.
     bind (sha256_hex (jsAdd (jsAdd data timestamp) nonce)) (\<lambda>computedHash.
     if strictEq computedHash hash then Inr True else Inr False)))))))"

text \<open>
  \<^verbatim>\<open>verifyBlock\<close>: the \<^verbatim>\<open>catch\<close> clause turns every exception of the body into
  \<^verbatim>\<open>false\<close>.  The result is \<open>Inr\<close> of the boolean returned; \<open>Inl\<close> would be an
  exception that reaches the caller.
\<close>

definition verifyBlock :: "filesystem \<Rightarrow> string \<Rightarrow> error + bool" where
  "verifyBlock fs filePath =
     (case verifyBlock_try fs filePath of Inl err \<Rightarrow> Inr False | Inr r \<Rightarrow> Inr r)"

text \<open>The second program: the same without the time stamp.\<close>

definition verifyBlock2_try :: "filesystem \<Rightarrow> string \<Rightarrow> error + bool" where
  "verifyBlock2_try fs filePath =
     bind (readFileSync fs filePath) (\<lambda>fileData.
     bind (JSON_parse fileData) (\<lambda>block.
     bind (getProp block ''hash'') (\<lambda>hash.
     bind (getProp block ''data'') (\<lambda>data.
     bind (getProp block ''nonce'') (\<lambda>nonce.
     bind (sha256_hex (jsAdd data nonce)) (\<lambda>computedHash.
     if strictEq computedHash hash then Inr True else Inr False))))))"

definition verifyBlock2 :: "filesystem \<Rightarrow> string \<Rightarrow> error + bool" where
  "verifyBlock2 fs filePath =
     (case verifyBlock2_try fs filePath of Inl err \<Rightarrow> Inr False | Inr r \<Rightarrow> Inr r)"

section \<open>Notions used in the statements\<close>

text \<open>
  The test of the miner's loop at a nonce: the difficulty predicate on the digest of the
  candidate message, for the first program and for the second.
\<close>

definition accepted :: "int \<Rightarrow> string \<Rightarrow> nat \<Rightarrow> nat \<Rightarrow> bool" where
  "accepted timestamp data startingZeros nonce =
     hasLeadingZeroBits
       (sha256_digest (data @ numberToString timestamp @ numberToString (int nonce)))
       startingZeros"

definition accepted2 :: "string \<Rightarrow> nat \<Rightarrow> nat \<Rightarrow> bool" where
  "accepted2 data startingZeros nonce =
     hasLeadingZeroBits (sha256_digest (data @ numberToString (int nonce))) startingZeros"

text \<open>The object that the loop returns when it stops at a nonce.\<close>

definition minedBlock :: "int \<Rightarrow> string \<Rightarrow> nat \<Rightarrow> json" where
  "minedBlock timestamp data nonce =
     JObject [''hash'' \<mapsto> String (toHex (sha256_digest
                (data @ numberToString timestamp @ numberToString (int nonce)))),
              ''data'' \<mapsto> String data, ''nonce'' \<mapsto> Number (int nonce),
              ''timestamp'' \<mapsto> Number timestamp]"

definition minedBlock2 :: "string \<Rightarrow> nat \<Rightarrow> json" where
  "minedBlock2 data nonce =
     JObject [''hash'' \<mapsto> String (toHex (sha256_digest (data @ numberToString (int nonce)))),
              ''data'' \<mapsto> String data, ''nonce'' \<mapsto> Number (int nonce)]"

text \<open>The value of a property of an object, \<^verbatim>\<open>undefined\<close> when it is absent.\<close>

definition field :: "(string \<rightharpoonup> val) \<Rightarrow> string \<Rightarrow> val" where
  "field m key = (case m key of None \<Rightarrow> Undefined | Some v \<Rightarrow> v)"

text \<open>Reading a decimal text back, to show that distinct numbers have distinct texts.\<close>

definition digitValue :: "char \<Rightarrow> nat" where
  "digitValue c = of_char c - 48"

definition digitsValue :: "string \<Rightarrow> nat" where
  "digitsValue s = foldl (\<lambda>a c. 10 * a + digitValue c) 0 s"

section \<open>Properties of the difficulty predicate\<close>

lemma bit_test: "(drop_bit k (w::byte) AND 1 = 0) = (\<not> bit w k)"
  by (simp add: and_one_eq bit_iff_odd_drop_bit even_iff_mod_2_eq_zero)

lemma bitsMSB_bitsBelow: "bitsMSB b = bitsBelow b 8"
  by (simp add: bitsMSB_def eval_nat_numeral)

lemma length_bitsBelow [simp]: "length (bitsBelow b k) = k"
  by (induction k) simp_all

text \<open>
  What the inner loop does with the \<open>k\<close> bits left of a byte: it returns from the
  function when it meets a one bit or reaches the required count, and otherwise hands
  the count on.
\<close>

lemma scanByte_spec:
  "scanByte b z k c =
     (let l = length (takeWhile Not (bitsBelow b k))
      in if l < k then Inl (z \<le> c + l)
         else if 0 < k \<and> z \<le> c + k then Inl True else Inr (c + k))"
proof (induction k arbitrary: c)
  case 0
  show ?case by simp
next
  case (Suc k)
  show ?case
    by (simp add: bit_test Suc Let_def)
qed

lemma takeWhile_len_le: "length (takeWhile P xs) \<le> length xs"
  by (induction xs) auto

lemma takeWhile_stops:
  "length (takeWhile P xs) < length xs \<Longrightarrow> takeWhile P (xs @ ys) = takeWhile P xs"
  by (induction xs) auto

lemma takeWhile_passes:
  "length (takeWhile P xs) = length xs \<Longrightarrow> takeWhile P (xs @ ys) = xs @ takeWhile P ys"
proof (induction xs)
  case Nil
  show ?case by simp
next
  case (Cons x xs)
  then show ?case
    using takeWhile_len_le [of P xs] by (auto split: if_splits)
qed

lemma scanBuffer_spec:
  "scanBuffer bs z c = (z \<le> c + leadingZeroBits bs)"
proof (induction bs arbitrary: c)
  case Nil
  show ?case by (simp add: leadingZeroBits_def)
next
  case (Cons b bs)
  let ?l = "length (takeWhile Not (bitsBelow b 8))"
  have le: "?l \<le> 8"
    using takeWhile_len_le [of Not "bitsBelow b 8"] by simp
  show ?case
  proof (cases "?l < 8")
    case True
    then have "takeWhile Not (bitsBelow b 8 @ concat (map bitsMSB bs))
        = takeWhile Not (bitsBelow b 8)"
      by (intro takeWhile_stops) simp
    then have "leadingZeroBits (b # bs) = ?l"
      by (simp add: leadingZeroBits_def bitsMSB_bitsBelow)
    then show ?thesis using True
      by (simp add: scanByte_spec Let_def)
  next
    case False
    then have all: "?l = 8" using le by simp
    then have "takeWhile Not (bitsBelow b 8 @ concat (map bitsMSB bs))
        = bitsBelow b 8 @ takeWhile Not (concat (map bitsMSB bs))"
      by (intro takeWhile_passes) simp
    then have "leadingZeroBits (b # bs) = 8 + leadingZeroBits bs"
      by (simp add: leadingZeroBits_def bitsMSB_bitsBelow)
    then show ?thesis using all Cons
      by (simp add: scanByte_spec Let_def add.assoc)
  qed
qed

lemma hasLeadingZeroBits_iff:
  "hasLeadingZeroBits digest zeros \<longleftrightarrow> zeros \<le> leadingZeroBits digest"
  by (simp add: hasLeadingZeroBits_def scanBuffer_spec)

lemma length_bitsMSB: "length (concat (map bitsMSB d)) = 8 * length d"
  by (induction d) (simp_all add: bitsMSB_def)

lemma leadingZeroBits_le: "leadingZeroBits d \<le> 8 * length d"
  using takeWhile_len_le [of Not "concat (map bitsMSB d)"]
  by (simp add: leadingZeroBits_def length_bitsMSB)

text \<open>
  Claim C2: for every byte sequence and every required count, the predicate holds
  exactly when the count of zero bits before the first one bit, scanning from the most
  significant bit of the first byte, is at least the required count; and a required
  count above the number of bits of the digest is never met.
\<close>

theorem hasLeadingZeroBits_leading_zero_count:
  "(hasLeadingZeroBits digest zeros \<longleftrightarrow> zeros \<le> leadingZeroBits digest)
   \<and> (8 * length digest < zeros \<longrightarrow> \<not> hasLeadingZeroBits digest zeros)"
  using leadingZeroBits_le [of digest]
  by (auto simp add: hasLeadingZeroBits_iff)

theorem hasLeadingZeroBits_leading_zero_count_witness:
  "8 * length [0 :: byte] < 9 \<and> \<not> hasLeadingZeroBits [0] 9
   \<and> hasLeadingZeroBits [0] 8 \<and> leadingZeroBits [0] = 8"
  using hasLeadingZeroBits_leading_zero_count [of "[0]" 9]
    hasLeadingZeroBits_leading_zero_count [of "[0]" 8]
  by (simp add: leadingZeroBits_def bitsMSB_def)

lemma leadingZeroBits_00_80: "leadingZeroBits (0x00 # 0x80 # rest) = 8"
  by (simp add: leadingZeroBits_def bitsMSB_def)

text \<open>
  Claim C4, as stated, fails: after the byte \<open>0x00\<close> the byte \<open>0x80\<close> begins with a
  one bit, so the digest has eight leading zero bits and nine are not met.
\<close>

theorem hasLeadingZeroBits_00_80_nine_counterexample:
  "hasLeadingZeroBits [0x00, 0x80] 9 = False"
  by (simp add: hasLeadingZeroBits_iff leadingZeroBits_00_80)

text \<open>
  Claim C4, amended: for every digest whose first byte is \<open>0x00\<close> and whose second
  byte is \<open>0x80\<close>, a required count of 8 is met and the required counts 9 and 10 are
  not.
\<close>

theorem hasLeadingZeroBits_00_80:
  "hasLeadingZeroBits (0x00 # 0x80 # rest) 8 = True
   \<and> hasLeadingZeroBits (0x00 # 0x80 # rest) 9 = False
   \<and> hasLeadingZeroBits (0x00 # 0x80 # rest) 10 = False"
  by (simp add: hasLeadingZeroBits_iff leadingZeroBits_00_80)

text \<open>
  Claim C7: for every digest, of any length and also the empty one, a required count
  of zero is met.
\<close>

theorem hasLeadingZeroBits_zero:
  "hasLeadingZeroBits d 0 = True"
  by (simp add: hasLeadingZeroBits_iff)

section \<open>Texts of numbers\<close>

lemma digitValue_decDigit: "n < 10 \<Longrightarrow> digitValue (decDigit n) = n"
proof -
  assume "n < 10"
  then have "n \<in> {0, 1, 2, 3, 4, 5, 6, 7, 8, 9}" by auto
  then show ?thesis
    by (auto simp add: digitValue_def decDigit_def)
qed

lemma decDigit_not_minus: "n < 10 \<Longrightarrow> decDigit n \<noteq> CHR ''-''"
proof -
  assume "n < 10"
  then have "n \<in> {0, 1, 2, 3, 4, 5, 6, 7, 8, 9}" by auto
  then show ?thesis
    by (auto simp add: decDigit_def)
qed

lemma digitsValue_digits: "digitsValue (digits n) = n"
proof (induction n rule: digits.induct)
  case (1 n)
  show ?case
  proof (cases "n < 10")
    case True
    then show ?thesis
      by (subst digits.simps) (simp add: digitsValue_def digitValue_decDigit)
  next
    case False
    then have "digitsValue (digits (n div 10)) = n div 10" using 1 by simp
    then show ?thesis using False
      by (subst digits.simps) (simp add: digitsValue_def digitValue_decDigit)
  qed
qed

lemma digits_inj: "digits a = digits b \<Longrightarrow> a = b"
  by (metis digitsValue_digits)

lemma digits_no_minus: "digits n \<noteq> [] \<and> hd (digits n) \<noteq> CHR ''-''"
proof (induction n rule: digits.induct)
  case (1 n)
  show ?case
  proof (cases "n < 10")
    case True
    then show ?thesis
      by (subst digits.simps, subst (2) digits.simps) (simp add: decDigit_not_minus)
  next
    case False
    then show ?thesis using 1
      by (subst digits.simps, subst (2) digits.simps) simp
  qed
qed

lemma numberToString_inj: "numberToString a = numberToString b \<Longrightarrow> a = b"
proof -
  assume eq: "numberToString a = numberToString b"
  show ?thesis
  proof (cases "a < 0"; cases "b < 0")
    assume "a < 0" "b < 0"
    then show ?thesis using eq digits_inj [of "nat (- a)" "nat (- b)"]
      by (simp add: numberToString_def)
  next
    assume "a < 0" "\<not> b < 0"
    then show ?thesis using eq digits_no_minus [of "nat b"]
      by (cases "digits (nat b)") (auto simp add: numberToString_def)
  next
    assume "\<not> a < 0" "b < 0"
    then show ?thesis using eq digits_no_minus [of "nat a"]
      by (cases "digits (nat a)") (auto simp add: numberToString_def)
  next
    assume "\<not> a < 0" "\<not> b < 0"
    then show ?thesis using eq digits_inj [of "nat a" "nat b"]
      by (simp add: numberToString_def)
  qed
qed


lemma numberToString_0: "numberToString 0 = ''0''"
  by (simp add: numberToString_def digits.simps decDigit_def)

lemma numberToString_1: "numberToString 1 = ''1''"
  by (simp add: numberToString_def digits.simps decDigit_def)

lemma numberToString_10: "numberToString 10 = ''10''"
  by (simp add: numberToString_def digits.simps decDigit_def)

lemma numberToString_11: "numberToString 11 = ''11''"
  by (simp add: numberToString_def digits.simps decDigit_def)

lemma numberToString_now: "numberToString 1700000000000 = ''1700000000000''"
  by (simp add: numberToString_def digits.simps decDigit_def)

section \<open>Digests of the messages used below\<close>

text \<open>
  Each digest is computed by the definition of this file; the values are those of
  SHA-256 for these messages.
\<close>

text \<open>The test vector of the standard for the message \<open>abc\<close>.\<close>

lemma digest_abc:
  "sha256_digest ''abc'' =
     [186, 120, 22, 191, 143, 1, 207, 234, 65, 65, 64, 222, 93, 174, 34, 35,
      176, 3, 97, 163, 150, 23, 122, 156, 180, 16, 255, 97, 242, 0, 21, 173]"
  by code_simp

lemma hex_abc:
  "toHex (sha256_digest ''abc'') =
     ''ba7816bf8f01cfea414140de5dae2223b00361a396177a9cb410ff61f20015ad''"
  by (simp add: digest_abc toHex_def hexDigit_def)

lemma digest_a10:
  "sha256_digest ''a10'' =
     [232, 15, 182, 90, 199, 3, 132, 189, 139, 171, 3, 88, 214, 11, 124, 190,
      150, 222, 91, 45, 231, 192, 149, 224, 216, 105, 88, 82, 233, 198, 115, 175]"
  by code_simp

lemma hex_a10:
  "toHex (sha256_digest ''a10'') =
     ''e80fb65ac70384bd8bab0358d60b7cbe96de5b2de7c095e0d8695852e9c673af''"
  by (simp add: digest_a10 toHex_def hexDigit_def)

lemma digest_a110:
  "sha256_digest ''a110'' =
     [194, 76, 143, 122, 244, 236, 51, 221, 177, 103, 96, 214, 243, 83, 152, 176,
      152, 107, 151, 169, 78, 41, 136, 57, 5, 48, 10, 144, 21, 112, 37, 61]"
  by code_simp

lemma hex_a110:
  "toHex (sha256_digest ''a110'') =
     ''c24c8f7af4ec33ddb16760d6f35398b0986b97a94e29883905300a901570253d''"
  by (simp add: digest_a110 toHex_def hexDigit_def)

lemma digest_a1undefined:
  "sha256_digest ''a1undefined'' =
     [184, 1, 24, 172, 40, 26, 104, 221, 237, 158, 16, 97, 193, 22, 162, 244,
      125, 161, 74, 83, 110, 76, 109, 34, 121, 253, 155, 49, 220, 146, 30, 85]"
  by code_simp

lemma hex_a1undefined:
  "toHex (sha256_digest ''a1undefined'') =
     ''b80118ac281a68dded9e1061c116a2f47da14a536e4c6d2279fd9b31dc921e55''"
  by (simp add: digest_a1undefined toHex_def hexDigit_def)

lemma digest_x0:
  "sha256_digest ''x17000000000000'' =
     [209, 159, 175, 245, 238, 16, 196, 151, 23, 62, 214, 17, 123, 144, 152, 208,
      100, 49, 186, 236, 85, 43, 170, 172, 100, 197, 149, 206, 231, 23, 117, 102]"
  by code_simp

lemma hex_x0:
  "toHex (sha256_digest ''x17000000000000'') =
     ''d19faff5ee10c497173ed6117b9098d06431baec552baaac64c595cee7177566''"
  by (simp add: digest_x0 toHex_def hexDigit_def)

lemma digest_x1:
  "sha256_digest ''x17000000000001'' =
     [86, 87, 45, 41, 245, 133, 208, 80, 119, 7, 69, 127, 246, 227, 41, 18,
      236, 106, 155, 172, 170, 217, 130, 53, 235, 185, 29, 197, 255, 85, 19, 107]"
  by code_simp

lemma hex_x1:
  "toHex (sha256_digest ''x17000000000001'') =
     ''56572d29f585d0507707457ff6e32912ec6a9bacaad98235ebb91dc5ff55136b''"
  by (simp add: digest_x1 toHex_def hexDigit_def)

lemma digest_b10:
  "sha256_digest ''b10'' =
     [8, 127, 76, 113, 9, 215, 102, 54, 83, 108, 113, 44, 81, 33, 37, 32,
      24, 250, 45, 208, 253, 222, 186, 128, 79, 29, 247, 132, 148, 216, 234, 1]"
  by code_simp

lemma hex_b10:
  "toHex (sha256_digest ''b10'') =
     ''087f4c7109d76636536c712c5121252018fa2dd0fddeba804f1df78494d8ea01''"
  by (simp add: digest_b10 toHex_def hexDigit_def)

lemma digest_a11:
  "sha256_digest ''a11'' =
     [234, 31, 240, 102, 25, 78, 156, 229, 251, 193, 83, 59, 36, 64, 34, 249,
      171, 83, 239, 28, 242, 244, 72, 111, 53, 249, 73, 251, 188, 27, 227, 198]"
  by code_simp

lemma hex_a11:
  "toHex (sha256_digest ''a11'') =
     ''ea1ff066194e9ce5fbc1533b244022f9ab53ef1cf2f4486f35f949fbbc1be3c6''"
  by (simp add: digest_a11 toHex_def hexDigit_def)

lemma digest_b110:
  "sha256_digest ''b110'' =
     [93, 137, 82, 2, 2, 19, 5, 179, 35, 100, 112, 177, 233, 45, 179, 222,
      179, 49, 138, 253, 154, 2, 37, 55, 226, 14, 148, 95, 128, 221, 159, 11]"
  by code_simp

lemma hex_b110:
  "toHex (sha256_digest ''b110'') =
     ''5d895202021305b3236470b1e92db3deb3318afd9a022537e20e945f80dd9f0b''"
  by (simp add: digest_b110 toHex_def hexDigit_def)

lemma digest_a111:
  "sha256_digest ''a111'' =
     [210, 230, 147, 83, 95, 242, 147, 146, 183, 97, 165, 118, 99, 194, 112, 192,
      141, 179, 35, 123, 81, 159, 228, 155, 241, 72, 182, 53, 137, 36, 234, 200]"
  by code_simp

lemma hex_a111:
  "toHex (sha256_digest ''a111'') =
     ''d2e693535ff29392b761a57663c270c08db3237b519fe49bf148b6358924eac8''"
  by (simp add: digest_a111 toHex_def hexDigit_def)

section \<open>The verifier on each kind of file\<close>

lemma bind_Inl [simp]: "bind (Inl e) f = Inl e"
  by (simp add: bind_def)

lemma bind_Inr [simp]: "bind (Inr x) f = f x"
  by (simp add: bind_def)

lemma verifyBlock_missing:
  "fs filePath = None \<Longrightarrow> verifyBlock fs filePath = Inr False"
  by (simp add: verifyBlock_def verifyBlock_try_def readFileSync_def)

lemma verifyBlock2_missing:
  "fs filePath = None \<Longrightarrow> verifyBlock2 fs filePath = Inr False"
  by (simp add: verifyBlock2_def verifyBlock2_try_def readFileSync_def)

lemma verifyBlock_NotJSON:
  "fs filePath = Some NotJSON \<Longrightarrow> verifyBlock fs filePath = Inr False"
  by (simp add: verifyBlock_def verifyBlock_try_def readFileSync_def)

lemma verifyBlock2_NotJSON:
  "fs filePath = Some NotJSON \<Longrightarrow> verifyBlock2 fs filePath = Inr False"
  by (simp add: verifyBlock2_def verifyBlock2_try_def readFileSync_def)

lemma verifyBlock_JNull:
  "fs filePath = Some (JSONText JNull) \<Longrightarrow> verifyBlock fs filePath = Inr False"
  by (simp add: verifyBlock_def verifyBlock_try_def readFileSync_def)

lemma verifyBlock2_JNull:
  "fs filePath = Some (JSONText JNull) \<Longrightarrow> verifyBlock2 fs filePath = Inr False"
  by (simp add: verifyBlock2_def verifyBlock2_try_def readFileSync_def)

lemma verifyBlock_JOther:
  "fs filePath = Some (JSONText JOther) \<Longrightarrow> verifyBlock fs filePath = Inr False"
  by (simp add: verifyBlock_def verifyBlock_try_def readFileSync_def)

lemma verifyBlock2_JOther:
  "fs filePath = Some (JSONText JOther) \<Longrightarrow> verifyBlock2 fs filePath = Inr False"
  by (simp add: verifyBlock2_def verifyBlock2_try_def readFileSync_def)

lemma verifyBlock_object:
  "fs filePath = Some (JSONText (JObject m)) \<Longrightarrow>
   verifyBlock fs filePath =
     (case jsAdd (jsAdd (field m ''data'') (field m ''timestamp'')) (field m ''nonce'') of
        String s \<Rightarrow> Inr (strictEq (toHex (sha256_digest s)) (field m ''hash''))
      | _ \<Rightarrow> Inr False)"
  by (simp add: verifyBlock_def verifyBlock_try_def readFileSync_def field_def split: val.splits)

lemma verifyBlock2_object:
  "fs filePath = Some (JSONText (JObject m)) \<Longrightarrow>
   verifyBlock2 fs filePath =
     (case jsAdd (field m ''data'') (field m ''nonce'') of
        String s \<Rightarrow> Inr (strictEq (toHex (sha256_digest s)) (field m ''hash''))
      | _ \<Rightarrow> Inr False)"
  by (simp add: verifyBlock2_def verifyBlock2_try_def readFileSync_def field_def split: val.splits)

lemma verifyBlock_total: "\<exists>r. verifyBlock fs filePath = Inr r"
  by (cases "verifyBlock_try fs filePath") (auto simp add: verifyBlock_def)

lemma verifyBlock2_total: "\<exists>r. verifyBlock2 fs filePath = Inr r"
  by (cases "verifyBlock2_try fs filePath") (auto simp add: verifyBlock2_def)

section \<open>The search loop\<close>

lemma search_found:
  "accepted t d z n \<Longrightarrow> search d t z n = Some (minedBlock t d n)"
  by (subst search.simps) (simp add: accepted_def minedBlock_def)

lemma search_next:
  "\<not> accepted t d z n \<Longrightarrow> n < 2 ^ 53 \<Longrightarrow> search d t z n = search d t z (Suc n)"
  by (subst search.simps) (simp add: accepted_def increment_def)

lemma search_least:
  "accepted t d z m \<Longrightarrow> \<forall>j. k \<le> j \<and> j < m \<longrightarrow> \<not> accepted t d z j \<Longrightarrow> k \<le> m \<Longrightarrow> m \<le> 2 ^ 53
   \<Longrightarrow> search d t z k = Some (minedBlock t d m)"
proof (induction "m - k" arbitrary: k)
  case 0
  then have "k = m" by simp
  with 0 show ?case by (simp add: search_found)
next
  case (Suc x)
  then have lt: "k < m" by simp
  with Suc.prems have rej: "\<not> accepted t d z k" by simp
  have "search d t z k = search d t z (Suc k)"
    using rej lt Suc.prems(4) by (intro search_next) simp_all
  also have "\<dots> = Some (minedBlock t d m)"
    using Suc.hyps(2) lt Suc.prems by (intro Suc.hyps(1)) simp_all
  finally show ?case .
qed

lemma search2_found:
  "accepted2 d z n \<Longrightarrow> search2 d z n = Some (minedBlock2 d n)"
  by (subst search2.simps) (simp add: accepted2_def minedBlock2_def)

lemma search2_next:
  "\<not> accepted2 d z n \<Longrightarrow> n < 2 ^ 53 \<Longrightarrow> search2 d z n = search2 d z (Suc n)"
  by (subst search2.simps) (simp add: accepted2_def increment_def)

lemma search2_least:
  "accepted2 d z m \<Longrightarrow> \<forall>j. k \<le> j \<and> j < m \<longrightarrow> \<not> accepted2 d z j \<Longrightarrow> k \<le> m \<Longrightarrow> m \<le> 2 ^ 53
   \<Longrightarrow> search2 d z k = Some (minedBlock2 d m)"
proof (induction "m - k" arbitrary: k)
  case 0
  then have "k = m" by simp
  with 0 show ?case by (simp add: search2_found)
next
  case (Suc x)
  then have lt: "k < m" by simp
  with Suc.prems have rej: "\<not> accepted2 d z k" by simp
  have "search2 d z k = search2 d z (Suc k)"
    using rej lt Suc.prems(4) by (intro search2_next) simp_all
  also have "\<dots> = Some (minedBlock2 d m)"
    using Suc.hyps(2) lt Suc.prems by (intro Suc.hyps(1)) simp_all
  finally show ?case .
qed

lemma createBlock_least:
  assumes "accepted t d z n" "n \<le> 2 ^ 53"
  shows "\<exists>m \<le> n. createBlock t d z = Some (minedBlock t d m)
           \<and> accepted t d z m \<and> (\<forall>j < m. \<not> accepted t d z j)"
proof -
  define m where "m = (LEAST j. accepted t d z j)"
  have acc: "accepted t d z m" unfolding m_def using assms(1) by (rule LeastI)
  have le: "m \<le> n" unfolding m_def using assms(1) by (rule Least_le)
  have least: "\<forall>j < m. \<not> accepted t d z j"
    unfolding m_def using not_less_Least by blast
  have "search d t z 0 = Some (minedBlock t d m)"
    using acc least le assms(2) by (intro search_least) simp_all
  then show ?thesis using acc le least by (auto simp add: createBlock_def)
qed

lemma createBlock2_least:
  assumes "accepted2 d z n" "n \<le> 2 ^ 53"
  shows "\<exists>m \<le> n. createBlock2 d z = Some (minedBlock2 d m)
           \<and> accepted2 d z m \<and> (\<forall>j < m. \<not> accepted2 d z j)"
proof -
  define m where "m = (LEAST j. accepted2 d z j)"
  have acc: "accepted2 d z m" unfolding m_def using assms(1) by (rule LeastI)
  have le: "m \<le> n" unfolding m_def using assms(1) by (rule Least_le)
  have least: "\<forall>j < m. \<not> accepted2 d z j"
    unfolding m_def using not_less_Least by blast
  have "search2 d z 0 = Some (minedBlock2 d m)"
    using acc least le assms(2) by (intro search2_least) simp_all
  then show ?thesis using acc le least by (auto simp add: createBlock2_def)
qed

lemma verifyBlock_minedBlock:
  "verifyBlock (writeFileSync fs filePath (JSON_stringify (minedBlock t d n))) filePath = Inr True"
  by (simp add: verifyBlock_object [where m = "[''hash'' \<mapsto> String (toHex (sha256_digest
                (d @ numberToString t @ numberToString (int n)))),
              ''data'' \<mapsto> String d, ''nonce'' \<mapsto> Number (int n),
              ''timestamp'' \<mapsto> Number t]"] writeFileSync_def JSON_stringify_def minedBlock_def field_def)

lemma verifyBlock2_minedBlock2:
  "verifyBlock2 (writeFileSync fs filePath (JSON_stringify (minedBlock2 d n))) filePath = Inr True"
  by (simp add: verifyBlock2_def verifyBlock2_try_def readFileSync_def writeFileSync_def JSON_stringify_def minedBlock2_def)


lemma search_sound:
  assumes "search d t z n = Some b"
  shows "\<exists>m. b = minedBlock t d m \<and> accepted t d z m"
proof (rule search.raw_induct
    [where P = "\<lambda>d t z n b. \<exists>m. b = minedBlock t d m \<and> accepted t d z m", OF _ assms])
  fix search' d t z n b
  assume step: "\<And>d t z n b. search' d t z n = Some b
      \<Longrightarrow> \<exists>m. b = minedBlock t d m \<and> accepted t d z m"
    and body: "(let combined = d @ numberToString t @ numberToString (int n);
          hashBuffer = sha256_digest combined; hash = toHex hashBuffer
      in if hasLeadingZeroBits hashBuffer z
         then Some (JObject [''hash'' \<mapsto> String hash, ''data'' \<mapsto> String d,
                 ''nonce'' \<mapsto> Number (int n), ''timestamp'' \<mapsto> Number t])
         else search' d t z (increment n)) = Some b"
  show "\<exists>m. b = minedBlock t d m \<and> accepted t d z m"
  proof (cases "accepted t d z n")
    case True
    with body have "b = minedBlock t d n"
      by (simp add: accepted_def minedBlock_def)
    with True show ?thesis by blast
  next
    case False
    with body have "search' d t z (increment n) = Some b"
      by (simp add: accepted_def)
    then show ?thesis by (rule step)
  qed
qed

lemma search2_sound:
  assumes "search2 d z n = Some b"
  shows "\<exists>m. b = minedBlock2 d m \<and> accepted2 d z m"
proof (rule search2.raw_induct
    [where P = "\<lambda>d z n b. \<exists>m. b = minedBlock2 d m \<and> accepted2 d z m", OF _ assms])
  fix search' d z n b
  assume step: "\<And>d z n b. search' d z n = Some b
      \<Longrightarrow> \<exists>m. b = minedBlock2 d m \<and> accepted2 d z m"
    and body: "(let combined = d @ numberToString (int n);
          hashBuffer = sha256_digest combined; hash = toHex hashBuffer
      in if hasLeadingZeroBits hashBuffer z
         then Some (JObject [''hash'' \<mapsto> String hash, ''data'' \<mapsto> String d,
                 ''nonce'' \<mapsto> Number (int n)])
         else search' d z (increment n)) = Some b"
  show "\<exists>m. b = minedBlock2 d m \<and> accepted2 d z m"
  proof (cases "accepted2 d z n")
    case True
    with body have "b = minedBlock2 d n"
      by (simp add: accepted2_def minedBlock2_def)
    with True show ?thesis by blast
  next
    case False
    with body have "search' d z (increment n) = Some b"
      by (simp add: accepted2_def)
    then show ?thesis by (rule step)
  qed
qed

text \<open>
  The search from nonce 0 never leaves the range of the counter, so a block it returns
  has a nonce up to \<open>2 ^ 53\<close>.
\<close>

lemma increment_le: "n \<le> 2 ^ 53 \<Longrightarrow> increment n \<le> 2 ^ 53"
  by (simp add: increment_def)

lemma search_visits:
  assumes "search d t z n = Some b"
  shows "n \<le> 2 ^ 53 \<longrightarrow> (\<exists>m \<le> 2 ^ 53. b = minedBlock t d m \<and> accepted t d z m)"
proof (rule search.raw_induct
    [where P = "\<lambda>d t z n b. n \<le> 2 ^ 53 \<longrightarrow>
        (\<exists>m \<le> 2 ^ 53. b = minedBlock t d m \<and> accepted t d z m)", OF _ assms])
  fix search' d t z n b
  assume step: "\<And>d t z n b. search' d t z n = Some b
      \<Longrightarrow> n \<le> 2 ^ 53 \<longrightarrow> (\<exists>m \<le> 2 ^ 53. b = minedBlock t d m \<and> accepted t d z m)"
    and body: "(let combined = d @ numberToString t @ numberToString (int n);
          hashBuffer = sha256_digest combined; hash = toHex hashBuffer
      in if hasLeadingZeroBits hashBuffer z
         then Some (JObject [''hash'' \<mapsto> String hash, ''data'' \<mapsto> String d,
                 ''nonce'' \<mapsto> Number (int n), ''timestamp'' \<mapsto> Number t])
         else search' d t z (increment n)) = Some b"
  show "n \<le> 2 ^ 53 \<longrightarrow> (\<exists>m \<le> 2 ^ 53. b = minedBlock t d m \<and> accepted t d z m)"
  proof
    assume le: "n \<le> 2 ^ 53"
    show "\<exists>m \<le> 2 ^ 53. b = minedBlock t d m \<and> accepted t d z m"
    proof (cases "accepted t d z n")
      case True
      with body have "b = minedBlock t d n"
        by (simp add: accepted_def minedBlock_def)
      with True le show ?thesis by blast
    next
      case False
      with body have "search' d t z (increment n) = Some b"
        by (simp add: accepted_def)
      then show ?thesis using step increment_le [OF le] by blast
    qed
  qed
qed

lemma search2_visits:
  assumes "search2 d z n = Some b"
  shows "n \<le> 2 ^ 53 \<longrightarrow> (\<exists>m \<le> 2 ^ 53. b = minedBlock2 d m \<and> accepted2 d z m)"
proof (rule search2.raw_induct
    [where P = "\<lambda>d z n b. n \<le> 2 ^ 53 \<longrightarrow>
        (\<exists>m \<le> 2 ^ 53. b = minedBlock2 d m \<and> accepted2 d z m)", OF _ assms])
  fix search' d z n b
  assume step: "\<And>d z n b. search' d z n = Some b
      \<Longrightarrow> n \<le> 2 ^ 53 \<longrightarrow> (\<exists>m \<le> 2 ^ 53. b = minedBlock2 d m \<and> accepted2 d z m)"
    and body: "(let combined = d @ numberToString (int n);
          hashBuffer = sha256_digest combined; hash = toHex hashBuffer
      in if hasLeadingZeroBits hashBuffer z
         then Some (JObject [''hash'' \<mapsto> String hash, ''data'' \<mapsto> String d,
                 ''nonce'' \<mapsto> Number (int n)])
         else search' d z (increment n)) = Some b"
  show "n \<le> 2 ^ 53 \<longrightarrow> (\<exists>m \<le> 2 ^ 53. b = minedBlock2 d m \<and> accepted2 d z m)"
  proof
    assume le: "n \<le> 2 ^ 53"
    show "\<exists>m \<le> 2 ^ 53. b = minedBlock2 d m \<and> accepted2 d z m"
    proof (cases "accepted2 d z n")
      case True
      with body have "b = minedBlock2 d n"
        by (simp add: accepted2_def minedBlock2_def)
      with True le show ?thesis by blast
    next
      case False
      with body have "search' d z (increment n) = Some b"
        by (simp add: accepted2_def)
      then show ?thesis using step increment_le [OF le] by blast
    qed
  qed
qed

text \<open>The miner returns exactly when a nonce up to \<open>2 ^ 53\<close> is accepted.\<close>

lemma createBlock_returns_iff:
  "(\<exists>b. createBlock now data z = Some b) \<longleftrightarrow> (\<exists>n \<le> 2 ^ 53. accepted now data z n)"
proof
  assume "\<exists>b. createBlock now data z = Some b"
  then obtain b where "search data now z 0 = Some b"
    by (auto simp add: createBlock_def)
  from search_visits [OF this] show "\<exists>n \<le> 2 ^ 53. accepted now data z n"
    by auto
next
  assume "\<exists>n \<le> 2 ^ 53. accepted now data z n"
  then obtain n where "accepted now data z n" "n \<le> 2 ^ 53"
    by blast
  from createBlock_least [OF this] show "\<exists>b. createBlock now data z = Some b"
    by blast
qed

lemma createBlock2_returns_iff:
  "(\<exists>b. createBlock2 data z = Some b) \<longleftrightarrow> (\<exists>n \<le> 2 ^ 53. accepted2 data z n)"
proof
  assume "\<exists>b. createBlock2 data z = Some b"
  then obtain b where "search2 data z 0 = Some b"
    by (auto simp add: createBlock2_def)
  from search2_visits [OF this] show "\<exists>n \<le> 2 ^ 53. accepted2 data z n"
    by auto
next
  assume "\<exists>n \<le> 2 ^ 53. accepted2 data z n"
  then obtain n where "accepted2 data z n" "n \<le> 2 ^ 53"
    by blast
  from createBlock2_least [OF this] show "\<exists>b. createBlock2 data z = Some b"
    by blast
qed


section \<open>A search with one rejected nonce\<close>

lemma rejected_x0: "\<not> hasLeadingZeroBits (sha256_digest ''x17000000000000'') 1"
  by (simp add: digest_x0 hasLeadingZeroBits_iff leadingZeroBits_def bitsMSB_def)

lemma accepted_x1: "hasLeadingZeroBits (sha256_digest ''x17000000000001'') 1"
  by (simp add: digest_x1 hasLeadingZeroBits_iff leadingZeroBits_def bitsMSB_def)

lemma accepted_x_0: "\<not> accepted 1700000000000 ''x'' 1 0"
  using rejected_x0 by (simp add: accepted_def numberToString_now numberToString_0)

lemma accepted_x_1: "accepted 1700000000000 ''x'' 1 1"
  using accepted_x1 by (simp add: accepted_def numberToString_now numberToString_1)

lemma accepted2_x_0: "\<not> accepted2 ''x1700000000000'' 1 0"
  using rejected_x0 by (simp add: accepted2_def numberToString_0)

lemma accepted2_x_1: "accepted2 ''x1700000000000'' 1 1"
  using accepted_x1 by (simp add: accepted2_def numberToString_1)

lemma createBlock_x:
  "createBlock 1700000000000 ''x'' 1 = Some (JObject
     [''hash'' \<mapsto> String ''56572d29f585d0507707457ff6e32912ec6a9bacaad98235ebb91dc5ff55136b'',
      ''data'' \<mapsto> String ''x'', ''nonce'' \<mapsto> Number 1,
      ''timestamp'' \<mapsto> Number 1700000000000])"
proof -
  have "search ''x'' 1700000000000 1 0 = search ''x'' 1700000000000 1 (Suc 0)"
    using accepted_x_0 by (intro search_next) simp_all
  also have "\<dots> = Some (minedBlock 1700000000000 ''x'' 1)"
    using accepted_x_1 by (simp add: search_found)
  finally show ?thesis
    by (simp add: createBlock_def minedBlock_def numberToString_now numberToString_1 hex_x1)
qed

lemma createBlock2_x:
  "createBlock2 ''x1700000000000'' 1 = Some (JObject
     [''hash'' \<mapsto> String ''56572d29f585d0507707457ff6e32912ec6a9bacaad98235ebb91dc5ff55136b'',
      ''data'' \<mapsto> String ''x1700000000000'', ''nonce'' \<mapsto> Number 1])"
proof -
  have "search2 ''x1700000000000'' 1 0 = search2 ''x1700000000000'' 1 (Suc 0)"
    using accepted2_x_0 by (intro search2_next) simp_all
  also have "\<dots> = Some (minedBlock2 ''x1700000000000'' 1)"
    using accepted2_x_1 by (simp add: search2_found)
  finally show ?thesis
    by (simp add: createBlock2_def minedBlock2_def numberToString_1 hex_x1)
qed

section \<open>The miner and the round trip\<close>

text \<open>
  Claim C1: whenever \<^verbatim>\<open>createBlock\<close> returns a block, writing it to a file and
  verifying the file returns \<^verbatim>\<open>true\<close>; and \<^verbatim>\<open>createBlock\<close> does return a block for
  every data string and every required count that some nonce satisfies (a nonce that
  the counter can reach, up to \<open>2 ^ 53\<close>).  This holds for the program with the time
  stamp and for the one without.
\<close>

theorem createBlock_verifyBlock_round_trip:
  "(createBlock now data z = Some b \<longrightarrow>
      verifyBlock (writeFileSync fs filePath (JSON_stringify b)) filePath = Inr True)
   \<and> (n \<le> 2 ^ 53 \<and> accepted now data z n \<longrightarrow> (\<exists>b. createBlock now data z = Some b))
   \<and> (createBlock2 data z = Some b2 \<longrightarrow>
      verifyBlock2 (writeFileSync fs filePath (JSON_stringify b2)) filePath = Inr True)
   \<and> (n \<le> 2 ^ 53 \<and> accepted2 data z n \<longrightarrow> (\<exists>b. createBlock2 data z = Some b))"
  using search_sound [of data now z 0 b] search2_sound [of data z 0 b2]
    createBlock_least [of now data z n] createBlock2_least [of data z n]
  by (auto simp add: createBlock_def createBlock2_def verifyBlock_minedBlock
      verifyBlock2_minedBlock2)

theorem createBlock_verifyBlock_round_trip_witness:
  "(1::nat) \<le> 2 ^ 53 \<and> accepted 1700000000000 ''x'' 1 1
   \<and> createBlock 1700000000000 ''x'' 1 = Some (JObject
        [''hash'' \<mapsto> String ''56572d29f585d0507707457ff6e32912ec6a9bacaad98235ebb91dc5ff55136b'',
         ''data'' \<mapsto> String ''x'', ''nonce'' \<mapsto> Number 1,
         ''timestamp'' \<mapsto> Number 1700000000000])
   \<and> verifyBlock (writeFileSync Map.empty ''block.json'' (JSON_stringify (JObject
        [''hash'' \<mapsto> String ''56572d29f585d0507707457ff6e32912ec6a9bacaad98235ebb91dc5ff55136b'',
         ''data'' \<mapsto> String ''x'', ''nonce'' \<mapsto> Number 1,
         ''timestamp'' \<mapsto> Number 1700000000000]))) ''block.json'' = Inr True
   \<and> accepted2 ''x1700000000000'' 1 1
   \<and> createBlock2 ''x1700000000000'' 1 = Some (JObject
        [''hash'' \<mapsto> String ''56572d29f585d0507707457ff6e32912ec6a9bacaad98235ebb91dc5ff55136b'',
         ''data'' \<mapsto> String ''x1700000000000'', ''nonce'' \<mapsto> Number 1])
   \<and> verifyBlock2 (writeFileSync Map.empty ''block.json'' (JSON_stringify (JObject
        [''hash'' \<mapsto> String ''56572d29f585d0507707457ff6e32912ec6a9bacaad98235ebb91dc5ff55136b'',
         ''data'' \<mapsto> String ''x1700000000000'', ''nonce'' \<mapsto> Number 1]))) ''block.json''
       = Inr True"
  using createBlock_verifyBlock_round_trip
      [where now = 1700000000000 and data = "''x''" and z = 1 and n = 1
         and fs = Map.empty and filePath = "''block.json''"
         and b = "JObject
        [''hash'' \<mapsto> String ''56572d29f585d0507707457ff6e32912ec6a9bacaad98235ebb91dc5ff55136b'',
         ''data'' \<mapsto> String ''x'', ''nonce'' \<mapsto> Number 1,
         ''timestamp'' \<mapsto> Number 1700000000000]"]
    createBlock_verifyBlock_round_trip
      [where data = "''x1700000000000''" and z = 1 and n = 1
         and fs = Map.empty and filePath = "''block.json''"
         and ?b2.0 = "JObject
        [''hash'' \<mapsto> String ''56572d29f585d0507707457ff6e32912ec6a9bacaad98235ebb91dc5ff55136b'',
         ''data'' \<mapsto> String ''x1700000000000'', ''nonce'' \<mapsto> Number 1]"]
    createBlock_x createBlock2_x accepted_x_1 accepted2_x_1
  by simp

text \<open>
  Claim C3: \<^verbatim>\<open>createBlock\<close> starts the search at nonce 0; a nonce that is rejected is
  followed by the next integer; and for every data string and every required count
  that some nonce satisfies, \<^verbatim>\<open>createBlock\<close> returns the block of the least nonce that
  is accepted, with the data, the time stamp read once before the loop (in the first
  program), and as hash the lowercase hex text of the SHA-256 digest of the candidate
  message of that nonce.
\<close>

theorem createBlock_least_nonce:
  "(n \<le> 2 ^ 53 \<and> accepted now data z n \<longrightarrow>
      (\<exists>m \<le> n. createBlock now data z = Some (JObject
           [''hash'' \<mapsto> String (toHex (sha256_digest
                (data @ numberToString now @ numberToString (int m)))),
            ''data'' \<mapsto> String data, ''nonce'' \<mapsto> Number (int m),
            ''timestamp'' \<mapsto> Number now])
         \<and> accepted now data z m \<and> (\<forall>j < m. \<not> accepted now data z j)))
   \<and> (n \<le> 2 ^ 53 \<and> accepted2 data z n \<longrightarrow>
      (\<exists>m \<le> n. createBlock2 data z = Some (JObject
           [''hash'' \<mapsto> String (toHex (sha256_digest (data @ numberToString (int m)))),
            ''data'' \<mapsto> String data, ''nonce'' \<mapsto> Number (int m)])
         \<and> accepted2 data z m \<and> (\<forall>j < m. \<not> accepted2 data z j)))
   \<and> createBlock now data z = search data now z 0
   \<and> createBlock2 data z = search2 data z 0
   \<and> (k < 2 ^ 53 \<and> \<not> accepted now data z k \<longrightarrow>
        search data now z k = search data now z (k + 1))
   \<and> (k < 2 ^ 53 \<and> \<not> accepted2 data z k \<longrightarrow>
        search2 data z k = search2 data z (k + 1))"
  using createBlock_least [of now data z n] createBlock2_least [of data z n]
    search_next [of now data z k] search2_next [of data z k]
  by (simp add: createBlock_def createBlock2_def minedBlock_def minedBlock2_def)

theorem createBlock_least_nonce_witness:
  "(1::nat) \<le> 2 ^ 53 \<and> accepted 1700000000000 ''x'' 1 1
   \<and> \<not> accepted 1700000000000 ''x'' 1 0
   \<and> createBlock 1700000000000 ''x'' 1 = Some (JObject
        [''hash'' \<mapsto> String ''56572d29f585d0507707457ff6e32912ec6a9bacaad98235ebb91dc5ff55136b'',
         ''data'' \<mapsto> String ''x'', ''nonce'' \<mapsto> Number 1,
         ''timestamp'' \<mapsto> Number 1700000000000])
   \<and> accepted2 ''x1700000000000'' 1 1 \<and> \<not> accepted2 ''x1700000000000'' 1 0
   \<and> createBlock2 ''x1700000000000'' 1 = Some (JObject
        [''hash'' \<mapsto> String ''56572d29f585d0507707457ff6e32912ec6a9bacaad98235ebb91dc5ff55136b'',
         ''data'' \<mapsto> String ''x1700000000000'', ''nonce'' \<mapsto> Number 1])"
proof -
  note inst = createBlock_least_nonce
    [where n = 1 and now = 1700000000000 and data = "''x''" and z = 1 and k = 0]
  note inst2 = createBlock_least_nonce
    [where n = 1 and now = 0 and data = "''x1700000000000''" and z = 1 and k = 0]
  have le: "(1::nat) \<le> 2 ^ 53" by simp
  from inst le accepted_x_1 obtain m where m: "m \<le> 1"
    "createBlock 1700000000000 ''x'' 1 = Some (JObject
           [''hash'' \<mapsto> String (toHex (sha256_digest
                (''x'' @ numberToString 1700000000000 @ numberToString (int m)))),
            ''data'' \<mapsto> String ''x'', ''nonce'' \<mapsto> Number (int m),
            ''timestamp'' \<mapsto> Number 1700000000000])"
    "accepted 1700000000000 ''x'' 1 m"
    by blast
  from m(1,3) accepted_x_0 have m1: "m = 1" by (cases m) auto
  from inst2 le accepted2_x_1 obtain m' where m': "m' \<le> 1"
    "createBlock2 ''x1700000000000'' 1 = Some (JObject
           [''hash'' \<mapsto> String (toHex (sha256_digest
                (''x1700000000000'' @ numberToString (int m')))),
            ''data'' \<mapsto> String ''x1700000000000'', ''nonce'' \<mapsto> Number (int m')])"
    "accepted2 ''x1700000000000'' 1 m'"
    by blast
  from m'(1,3) accepted2_x_0 have m'1: "m' = 1" by (cases m') auto
  show ?thesis
    using le accepted_x_1 accepted_x_0 accepted2_x_1 accepted2_x_0 m(2) m'(2)
    by (simp add: m1 m'1 numberToString_now numberToString_1 hex_x1)
qed

section \<open>Files that cannot be loaded\<close>

text \<open>
  Claim C6: for a path whose file is missing or unreadable, or whose text is not JSON
  (or is JSON but \<^verbatim>\<open>null\<close> or no object at all), \<^verbatim>\<open>verifyBlock\<close> returns
  \<^verbatim>\<open>false\<close>; no exception reaches the caller.
\<close>

theorem verifyBlock_load_failure:
  "(fs filePath = None \<or> fs filePath = Some NotJSON
      \<or> fs filePath = Some (JSONText JNull) \<or> fs filePath = Some (JSONText JOther))
   \<longrightarrow> verifyBlock fs filePath = Inr False \<and> verifyBlock2 fs filePath = Inr False"
  by (auto simp add: verifyBlock_missing verifyBlock2_missing verifyBlock_NotJSON
      verifyBlock2_NotJSON verifyBlock_JNull verifyBlock2_JNull verifyBlock_JOther
      verifyBlock2_JOther)

theorem verifyBlock_load_failure_witness:
  "(Map.empty :: filesystem) ''block.json'' = None
   \<and> verifyBlock Map.empty ''block.json'' = Inr False
   \<and> verifyBlock2 Map.empty ''block.json'' = Inr False
   \<and> [''block.json'' \<mapsto> NotJSON] ''block.json'' = Some NotJSON
   \<and> verifyBlock [''block.json'' \<mapsto> NotJSON] ''block.json'' = Inr False
   \<and> verifyBlock2 [''block.json'' \<mapsto> NotJSON] ''block.json'' = Inr False"
  using verifyBlock_load_failure [of Map.empty "''block.json''"]
    verifyBlock_load_failure [of "[''block.json'' \<mapsto> NotJSON]" "''block.json''"]
  by simp

section \<open>The message does not determine data and nonce\<close>

text \<open>
  Claim C9: the candidate message, the texts of data, time stamp and nonce put
  together with no separator, does not determine data and nonce.  The block mined for
  data \<open>a1\<close> at nonce 0 has the message of data \<open>a\<close> with nonce 10, so a file with
  that data and that nonce, and the hash of the mined block, is verified; and so with
  the time stamp 1 in the first program.
\<close>

theorem message_not_injective:
  "''a1'' @ numberToString 0 = ''a'' @ numberToString 10
   \<and> createBlock2 ''a1'' 0 = Some (JObject
        [''hash'' \<mapsto> String ''e80fb65ac70384bd8bab0358d60b7cbe96de5b2de7c095e0d8695852e9c673af'',
         ''data'' \<mapsto> String ''a1'', ''nonce'' \<mapsto> Number 0])
   \<and> verifyBlock2 [''block.json'' \<mapsto> JSONText (JObject
        [''hash'' \<mapsto> String ''e80fb65ac70384bd8bab0358d60b7cbe96de5b2de7c095e0d8695852e9c673af'',
         ''data'' \<mapsto> String ''a'', ''nonce'' \<mapsto> Number 10])] ''block.json'' = Inr True
   \<and> ''a1'' @ numberToString 1 @ numberToString 0 = ''a'' @ numberToString 1 @ numberToString 10
   \<and> createBlock 1 ''a1'' 0 = Some (JObject
        [''hash'' \<mapsto> String ''c24c8f7af4ec33ddb16760d6f35398b0986b97a94e29883905300a901570253d'',
         ''data'' \<mapsto> String ''a1'', ''nonce'' \<mapsto> Number 0, ''timestamp'' \<mapsto> Number 1])
   \<and> verifyBlock [''block.json'' \<mapsto> JSONText (JObject
        [''hash'' \<mapsto> String ''c24c8f7af4ec33ddb16760d6f35398b0986b97a94e29883905300a901570253d'',
         ''data'' \<mapsto> String ''a'', ''nonce'' \<mapsto> Number 10, ''timestamp'' \<mapsto> Number 1])]
        ''block.json'' = Inr True"
proof -
  have m2: "''a1'' @ numberToString 0 = ''a'' @ numberToString 10"
    by (simp add: numberToString_0 numberToString_10)
  have c2: "createBlock2 ''a1'' 0 = Some (JObject
        [''hash'' \<mapsto> String ''e80fb65ac70384bd8bab0358d60b7cbe96de5b2de7c095e0d8695852e9c673af'',
         ''data'' \<mapsto> String ''a1'', ''nonce'' \<mapsto> Number 0])"
    unfolding createBlock2_def
    by (subst search2.simps) (simp add: numberToString_0 hex_a10 hasLeadingZeroBits_iff)
  have v2: "verifyBlock2 [''block.json'' \<mapsto> JSONText (JObject
        [''hash'' \<mapsto> String ''e80fb65ac70384bd8bab0358d60b7cbe96de5b2de7c095e0d8695852e9c673af'',
         ''data'' \<mapsto> String ''a'', ''nonce'' \<mapsto> Number 10])] ''block.json'' = Inr True"
    by (simp add: verifyBlock2_def verifyBlock2_try_def readFileSync_def numberToString_10
        hex_a10)
  have m1: "''a1'' @ numberToString 1 @ numberToString 0
      = ''a'' @ numberToString 1 @ numberToString 10"
    by (simp add: numberToString_0 numberToString_1 numberToString_10)
  have c1: "createBlock 1 ''a1'' 0 = Some (JObject
        [''hash'' \<mapsto> String ''c24c8f7af4ec33ddb16760d6f35398b0986b97a94e29883905300a901570253d'',
         ''data'' \<mapsto> String ''a1'', ''nonce'' \<mapsto> Number 0, ''timestamp'' \<mapsto> Number 1])"
    unfolding createBlock_def
    by (subst search.simps)
      (simp add: numberToString_0 numberToString_1 hex_a110 hasLeadingZeroBits_iff)
  have v1: "verifyBlock [''block.json'' \<mapsto> JSONText (JObject
        [''hash'' \<mapsto> String ''c24c8f7af4ec33ddb16760d6f35398b0986b97a94e29883905300a901570253d'',
         ''data'' \<mapsto> String ''a'', ''nonce'' \<mapsto> Number 10, ''timestamp'' \<mapsto> Number 1])]
        ''block.json'' = Inr True"
    by (simp add: verifyBlock_def verifyBlock_try_def readFileSync_def numberToString_1
        numberToString_10 hex_a110)
  from m2 c2 v2 m1 c1 v1 show ?thesis by blast
qed

section \<open>The verifier on a well-typed record\<close>

lemma verifyBlock_record:
  "fs filePath = Some (JSONText (JObject m)) \<Longrightarrow> m ''data'' = Some (String d)
   \<Longrightarrow> m ''timestamp'' = Some (Number t) \<Longrightarrow> m ''nonce'' = Some (Number n)
   \<Longrightarrow> verifyBlock fs filePath =
        Inr (strictEq (toHex (sha256_digest (d @ numberToString t @ numberToString n)))
               (field m ''hash''))"
  by (simp add: verifyBlock_object field_def)

lemma verifyBlock2_record:
  "fs filePath = Some (JSONText (JObject m)) \<Longrightarrow> m ''data'' = Some (String d)
   \<Longrightarrow> m ''nonce'' = Some (Number n)
   \<Longrightarrow> verifyBlock2 fs filePath =
        Inr (strictEq (toHex (sha256_digest (d @ numberToString n))) (field m ''hash''))"
  by (simp add: verifyBlock2_object field_def)

lemma strictEq_iff: "strictEq s v \<longleftrightarrow> v = String s"
  by (cases v) auto

lemma verifyBlock_a110:
  "verifyBlock [''block.json'' \<mapsto> JSONText (JObject
        [''hash'' \<mapsto> String ''c24c8f7af4ec33ddb16760d6f35398b0986b97a94e29883905300a901570253d'',
         ''data'' \<mapsto> String ''a'', ''nonce'' \<mapsto> Number 10,
         ''timestamp'' \<mapsto> Number 1])] ''block.json''
     = Inr True"
  by (simp add: verifyBlock_def verifyBlock_try_def readFileSync_def numberToString_1
      numberToString_10 hex_a110)

lemma verifyBlock2_a10:
  "verifyBlock2 [''block.json'' \<mapsto> JSONText (JObject
        [''hash'' \<mapsto> String ''e80fb65ac70384bd8bab0358d60b7cbe96de5b2de7c095e0d8695852e9c673af'',
         ''data'' \<mapsto> String ''a'', ''nonce'' \<mapsto> Number 10])] ''block.json''
     = Inr True"
  by (simp add: verifyBlock2_def verifyBlock2_try_def readFileSync_def numberToString_10
      hex_a10)

lemma leadingZeroBits_a10: "leadingZeroBits (sha256_digest ''a10'') = 0"
  by (simp add: digest_a10 leadingZeroBits_def bitsMSB_def)

lemma leadingZeroBits_a110: "leadingZeroBits (sha256_digest ''a110'') = 0"
  by (simp add: digest_a110 leadingZeroBits_def bitsMSB_def)

text \<open>
  Claim C10: on a record with a string as hash, a string as data and integers up to
  \<open>2 ^ 53\<close> in magnitude as nonce (and time stamp), \<^verbatim>\<open>verifyBlock\<close> returns whether
  the stored hash is the hex text of the digest recomputed from the fields, and nothing
  else: the required count of zero bits is no argument of it, and a record whose digest
  begins with a one bit is verified.
\<close>

theorem verifyBlock_equality_only:
  "(fs filePath = Some (JSONText (JObject m)) \<and> m ''hash'' = Some (String h)
      \<and> m ''data'' = Some (String d) \<and> m ''timestamp'' = Some (Number t)
      \<and> m ''nonce'' = Some (Number n) \<and> \<bar>t\<bar> \<le> 2 ^ 53 \<and> \<bar>n\<bar> \<le> 2 ^ 53
    \<longrightarrow> verifyBlock fs filePath =
          Inr (h = toHex (sha256_digest (d @ numberToString t @ numberToString n))))
   \<and> (fs filePath = Some (JSONText (JObject m)) \<and> m ''hash'' = Some (String h)
      \<and> m ''data'' = Some (String d) \<and> m ''nonce'' = Some (Number n)
      \<and> \<bar>n\<bar> \<le> 2 ^ 53
    \<longrightarrow> verifyBlock2 fs filePath = Inr (h = toHex (sha256_digest (d @ numberToString n))))"
  by (auto simp add: verifyBlock_record verifyBlock2_record field_def)

theorem verifyBlock_equality_only_witness:
  "verifyBlock [''block.json'' \<mapsto> JSONText (JObject
        [''hash'' \<mapsto> String ''c24c8f7af4ec33ddb16760d6f35398b0986b97a94e29883905300a901570253d'',
         ''data'' \<mapsto> String ''a'', ''nonce'' \<mapsto> Number 10,
         ''timestamp'' \<mapsto> Number 1])] ''block.json''
     = Inr True
   \<and> \<not> hasLeadingZeroBits (sha256_digest (''a'' @ numberToString 1 @ numberToString 10)) 1
   \<and> verifyBlock2 [''block.json'' \<mapsto> JSONText (JObject
        [''hash'' \<mapsto> String ''e80fb65ac70384bd8bab0358d60b7cbe96de5b2de7c095e0d8695852e9c673af'',
         ''data'' \<mapsto> String ''a'', ''nonce'' \<mapsto> Number 10])] ''block.json''
     = Inr True
   \<and> \<not> hasLeadingZeroBits (sha256_digest (''a'' @ numberToString 10)) 1"
  using verifyBlock_equality_only
      [where fs = "[''block.json'' \<mapsto> JSONText (JObject
        [''hash'' \<mapsto> String ''c24c8f7af4ec33ddb16760d6f35398b0986b97a94e29883905300a901570253d'',
         ''data'' \<mapsto> String ''a'', ''nonce'' \<mapsto> Number 10,
         ''timestamp'' \<mapsto> Number 1])]"
        and filePath = "''block.json''"
        and m = "[''hash'' \<mapsto> String ''c24c8f7af4ec33ddb16760d6f35398b0986b97a94e29883905300a901570253d'',
         ''data'' \<mapsto> String ''a'', ''nonce'' \<mapsto> Number 10,
         ''timestamp'' \<mapsto> Number 1]"
        and h = "''c24c8f7af4ec33ddb16760d6f35398b0986b97a94e29883905300a901570253d''"
        and d = "''a''" and t = 1 and n = 10]
    verifyBlock_equality_only
      [where fs = "[''block.json'' \<mapsto> JSONText (JObject
        [''hash'' \<mapsto> String ''e80fb65ac70384bd8bab0358d60b7cbe96de5b2de7c095e0d8695852e9c673af'',
         ''data'' \<mapsto> String ''a'', ''nonce'' \<mapsto> Number 10])]"
        and filePath = "''block.json''"
        and m = "[''hash'' \<mapsto> String ''e80fb65ac70384bd8bab0358d60b7cbe96de5b2de7c095e0d8695852e9c673af'',
         ''data'' \<mapsto> String ''a'', ''nonce'' \<mapsto> Number 10]"
        and h = "''e80fb65ac70384bd8bab0358d60b7cbe96de5b2de7c095e0d8695852e9c673af''"
        and d = "''a''" and n = 10]
  by (simp add: numberToString_1 numberToString_10 hex_a10 hex_a110 hasLeadingZeroBits_iff
      leadingZeroBits_a10 leadingZeroBits_a110)

section \<open>Records with a missing field\<close>

text \<open>
  Claim C8, as stated, fails: a record without nonce is verified when its hash is the
  digest of the data (and the time stamp) followed by the text \<open>undefined\<close>, which is
  what the concatenation makes of the absent property.
\<close>

theorem verifyBlock_missing_nonce_counterexample:
  "verifyBlock [''block.json'' \<mapsto> JSONText (JObject
        [''hash'' \<mapsto> String ''b80118ac281a68dded9e1061c116a2f47da14a536e4c6d2279fd9b31dc921e55'',
         ''data'' \<mapsto> String ''a'', ''timestamp'' \<mapsto> Number 1])] ''block.json''
     = Inr True
   \<and> verifyBlock2 [''block.json'' \<mapsto> JSONText (JObject
        [''hash'' \<mapsto> String ''b80118ac281a68dded9e1061c116a2f47da14a536e4c6d2279fd9b31dc921e55'',
         ''data'' \<mapsto> String ''a1''])] ''block.json''
     = Inr True"
  by (simp add: verifyBlock_def verifyBlock_try_def verifyBlock2_def verifyBlock2_try_def
      readFileSync_def numberToString_1 hex_a1undefined)

text \<open>
  Claim C8, amended: on a file that holds an object, \<^verbatim>\<open>verifyBlock\<close> throws nothing.
  It returns \<^verbatim>\<open>false\<close> when the hash is absent, and when the data is absent and the
  other fields are numbers.  When the nonce is absent (the data a string, the time stamp
  a number) it returns \<^verbatim>\<open>true\<close> exactly when the stored hash is the hex text of the
  digest of the data, the time stamp if any, and the text \<open>undefined\<close>.  The numbers
  of the file are integers up to \<open>2 ^ 53\<close> in magnitude.
\<close>

theorem verifyBlock_missing_field:
  "fs filePath = Some (JSONText (JObject m)) \<longrightarrow>
     (\<exists>r. verifyBlock fs filePath = Inr r) \<and> (\<exists>r. verifyBlock2 fs filePath = Inr r)
     \<and> (m ''hash'' = None \<longrightarrow>
           verifyBlock fs filePath = Inr False \<and> verifyBlock2 fs filePath = Inr False)
     \<and> (m ''data'' = None \<and> m ''timestamp'' = Some (Number t) \<and> m ''nonce'' = Some (Number n)
           \<and> \<bar>t\<bar> \<le> 2 ^ 53 \<and> \<bar>n\<bar> \<le> 2 ^ 53
           \<longrightarrow> verifyBlock fs filePath = Inr False)
     \<and> (m ''data'' = None \<and> m ''nonce'' = Some (Number n) \<and> \<bar>n\<bar> \<le> 2 ^ 53
           \<longrightarrow> verifyBlock2 fs filePath = Inr False)
     \<and> (m ''nonce'' = None \<and> m ''data'' = Some (String d) \<and> m ''timestamp'' = Some (Number t)
           \<and> \<bar>t\<bar> \<le> 2 ^ 53
           \<longrightarrow> verifyBlock fs filePath = Inr (m ''hash'' = Some (String
                  (toHex (sha256_digest (d @ numberToString t @ ''undefined''))))))
     \<and> (m ''nonce'' = None \<and> m ''data'' = Some (String d)
           \<longrightarrow> verifyBlock2 fs filePath = Inr (m ''hash'' = Some (String
                  (toHex (sha256_digest (d @ ''undefined''))))))"
proof
  assume obj: "fs filePath = Some (JSONText (JObject m))"
  have nohash: "m ''hash'' = None \<Longrightarrow> verifyBlock fs filePath = Inr False"
    using obj by (simp add: verifyBlock_object field_def split: val.splits)
  have nohash2: "m ''hash'' = None \<Longrightarrow> verifyBlock2 fs filePath = Inr False"
    using obj by (simp add: verifyBlock2_object field_def split: val.splits)
  have nodata: "m ''data'' = None \<Longrightarrow> m ''timestamp'' = Some (Number t)
      \<Longrightarrow> m ''nonce'' = Some (Number n) \<Longrightarrow> verifyBlock fs filePath = Inr False"
    using obj by (simp add: verifyBlock_object field_def)
  have nodata2: "m ''data'' = None \<Longrightarrow> m ''nonce'' = Some (Number n)
      \<Longrightarrow> verifyBlock2 fs filePath = Inr False"
    using obj by (simp add: verifyBlock2_object field_def)
  have nononce: "m ''nonce'' = None \<Longrightarrow> m ''data'' = Some (String d)
      \<Longrightarrow> m ''timestamp'' = Some (Number t)
      \<Longrightarrow> verifyBlock fs filePath = Inr (m ''hash'' = Some (String
                  (toHex (sha256_digest (d @ numberToString t @ ''undefined'')))))"
    using obj by (auto simp add: verifyBlock_object field_def strictEq_iff split: option.splits)
  have nononce2: "m ''nonce'' = None \<Longrightarrow> m ''data'' = Some (String d)
      \<Longrightarrow> verifyBlock2 fs filePath = Inr (m ''hash'' = Some (String
                  (toHex (sha256_digest (d @ ''undefined'')))))"
    using obj by (auto simp add: verifyBlock2_object field_def strictEq_iff split: option.splits)
  show "(\<exists>r. verifyBlock fs filePath = Inr r) \<and> (\<exists>r. verifyBlock2 fs filePath = Inr r)
     \<and> (m ''hash'' = None \<longrightarrow>
           verifyBlock fs filePath = Inr False \<and> verifyBlock2 fs filePath = Inr False)
     \<and> (m ''data'' = None \<and> m ''timestamp'' = Some (Number t) \<and> m ''nonce'' = Some (Number n)
           \<and> \<bar>t\<bar> \<le> 2 ^ 53 \<and> \<bar>n\<bar> \<le> 2 ^ 53
           \<longrightarrow> verifyBlock fs filePath = Inr False)
     \<and> (m ''data'' = None \<and> m ''nonce'' = Some (Number n) \<and> \<bar>n\<bar> \<le> 2 ^ 53
           \<longrightarrow> verifyBlock2 fs filePath = Inr False)
     \<and> (m ''nonce'' = None \<and> m ''data'' = Some (String d) \<and> m ''timestamp'' = Some (Number t)
           \<and> \<bar>t\<bar> \<le> 2 ^ 53
           \<longrightarrow> verifyBlock fs filePath = Inr (m ''hash'' = Some (String
                  (toHex (sha256_digest (d @ numberToString t @ ''undefined''))))))
     \<and> (m ''nonce'' = None \<and> m ''data'' = Some (String d)
           \<longrightarrow> verifyBlock2 fs filePath = Inr (m ''hash'' = Some (String
                  (toHex (sha256_digest (d @ ''undefined''))))))"
    using verifyBlock_total [of fs filePath] verifyBlock2_total [of fs filePath]
      nohash nohash2 nodata nodata2 nononce nononce2
    by blast
qed

theorem verifyBlock_missing_field_witness:
  "verifyBlock [''block.json'' \<mapsto> JSONText (JObject
        [''data'' \<mapsto> String ''a'', ''nonce'' \<mapsto> Number 10,
         ''timestamp'' \<mapsto> Number 1])] ''block.json''
     = Inr False
   \<and> verifyBlock2 [''block.json'' \<mapsto> JSONText (JObject
        [''data'' \<mapsto> String ''a'', ''nonce'' \<mapsto> Number 10])] ''block.json''
     = Inr False
   \<and> verifyBlock [''block.json'' \<mapsto> JSONText (JObject
        [''hash'' \<mapsto> String ''c24c8f7af4ec33ddb16760d6f35398b0986b97a94e29883905300a901570253d'',
         ''nonce'' \<mapsto> Number 10, ''timestamp'' \<mapsto> Number 1])] ''block.json''
     = Inr False
   \<and> verifyBlock2 [''block.json'' \<mapsto> JSONText (JObject
        [''hash'' \<mapsto> String ''e80fb65ac70384bd8bab0358d60b7cbe96de5b2de7c095e0d8695852e9c673af'',
         ''nonce'' \<mapsto> Number 10])] ''block.json''
     = Inr False
   \<and> verifyBlock [''block.json'' \<mapsto> JSONText (JObject
        [''hash'' \<mapsto> String ''b80118ac281a68dded9e1061c116a2f47da14a536e4c6d2279fd9b31dc921e55'',
         ''data'' \<mapsto> String ''a'', ''timestamp'' \<mapsto> Number 1])] ''block.json''
     = Inr True
   \<and> verifyBlock2 [''block.json'' \<mapsto> JSONText (JObject
        [''hash'' \<mapsto> String ''b80118ac281a68dded9e1061c116a2f47da14a536e4c6d2279fd9b31dc921e55'',
         ''data'' \<mapsto> String ''a1''])] ''block.json''
     = Inr True"
  using verifyBlock_missing_field
      [where fs = "[''block.json'' \<mapsto> JSONText (JObject
        [''data'' \<mapsto> String ''a'', ''nonce'' \<mapsto> Number 10,
         ''timestamp'' \<mapsto> Number 1])]"
        and filePath = "''block.json''"
        and m = "[''data'' \<mapsto> String ''a'', ''nonce'' \<mapsto> Number 10,
         ''timestamp'' \<mapsto> Number 1]"]
    verifyBlock_missing_field
      [where fs = "[''block.json'' \<mapsto> JSONText (JObject
        [''data'' \<mapsto> String ''a'', ''nonce'' \<mapsto> Number 10])]"
        and filePath = "''block.json''"
        and m = "[''data'' \<mapsto> String ''a'', ''nonce'' \<mapsto> Number 10]"]
    verifyBlock_missing_field
      [where fs = "[''block.json'' \<mapsto> JSONText (JObject
        [''hash'' \<mapsto> String ''c24c8f7af4ec33ddb16760d6f35398b0986b97a94e29883905300a901570253d'',
         ''nonce'' \<mapsto> Number 10, ''timestamp'' \<mapsto> Number 1])]"
        and filePath = "''block.json''"
        and m = "[''hash'' \<mapsto> String ''c24c8f7af4ec33ddb16760d6f35398b0986b97a94e29883905300a901570253d'',
         ''nonce'' \<mapsto> Number 10, ''timestamp'' \<mapsto> Number 1]"
        and t = 1 and n = 10]
    verifyBlock_missing_field
      [where fs = "[''block.json'' \<mapsto> JSONText (JObject
        [''hash'' \<mapsto> String ''e80fb65ac70384bd8bab0358d60b7cbe96de5b2de7c095e0d8695852e9c673af'',
         ''nonce'' \<mapsto> Number 10])]"
        and filePath = "''block.json''"
        and m = "[''hash'' \<mapsto> String ''e80fb65ac70384bd8bab0358d60b7cbe96de5b2de7c095e0d8695852e9c673af'',
         ''nonce'' \<mapsto> Number 10]"
        and n = 10]
    verifyBlock_missing_field
      [where fs = "[''block.json'' \<mapsto> JSONText (JObject
        [''hash'' \<mapsto> String ''b80118ac281a68dded9e1061c116a2f47da14a536e4c6d2279fd9b31dc921e55'',
         ''data'' \<mapsto> String ''a'', ''timestamp'' \<mapsto> Number 1])]"
        and filePath = "''block.json''"
        and m = "[''hash'' \<mapsto> String ''b80118ac281a68dded9e1061c116a2f47da14a536e4c6d2279fd9b31dc921e55'',
         ''data'' \<mapsto> String ''a'', ''timestamp'' \<mapsto> Number 1]"
        and d = "''a''" and t = 1]
    verifyBlock_missing_field
      [where fs = "[''block.json'' \<mapsto> JSONText (JObject
        [''hash'' \<mapsto> String ''b80118ac281a68dded9e1061c116a2f47da14a536e4c6d2279fd9b31dc921e55'',
         ''data'' \<mapsto> String ''a1''])]"
        and filePath = "''block.json''"
        and m = "[''hash'' \<mapsto> String ''b80118ac281a68dded9e1061c116a2f47da14a536e4c6d2279fd9b31dc921e55'',
         ''data'' \<mapsto> String ''a1'']"
        and d = "''a1''"]
  by (simp add: numberToString_1 hex_a1undefined)

section \<open>Digests have 32 bytes\<close>

text \<open>
  Every digest has 32 bytes and there are infinitely many strings, so two different
  data strings have the same digest when followed by the same text.  No such pair is
  known; the lemma only says that the digest cannot tell all strings apart.
\<close>

lemma length_step: "length (step t1 t2 s) = 8"
  by (simp add: step_def)

lemma length_rounds: "length s = 8 \<Longrightarrow> length (rounds ks w s) = 8"
  by (induction ks arbitrary: w s) (simp_all add: length_step)

lemma length_compress: "length s = 8 \<Longrightarrow> length (compress s b) = 8"
  by (simp add: compress_def length_rounds)

lemma length_blocks: "length s = 8 \<Longrightarrow> length (blocks s bs) = 8"
proof (induction s bs rule: blocks.induct)
  case (1 s bs)
  then show ?case
    by (subst blocks.simps) (simp add: length_compress)
qed

lemma length_concat_unbe32: "length (concat (map unbe32 xs)) = 4 * length xs"
  by (induction xs) (simp_all add: unbe32_def)

lemma length_sha256: "length (sha256 m) = 32"
  by (simp add: sha256_def length_concat_unbe32 length_blocks H0_def)

lemma digest_collision:
  "\<exists>d d'. d \<noteq> d' \<and> sha256_digest (d @ x) = sha256_digest (d' @ x)"
proof (rule ccontr)
  assume "\<not> ?thesis"
  then have inj: "inj (\<lambda>d. sha256_digest (d @ x))"
    by (auto simp add: inj_on_def)
  have "range (\<lambda>d. sha256_digest (d @ x)) \<subseteq> {xs. set xs \<subseteq> (UNIV :: byte set) \<and> length xs = 32}"
    by (auto simp add: sha256_digest_def length_sha256)
  moreover have "finite {xs. set xs \<subseteq> (UNIV :: byte set) \<and> length xs = 32}"
    by (rule finite_lists_length_eq) simp
  ultimately have "finite (range (\<lambda>d. sha256_digest (d @ x)))"
    by (rule finite_subset)
  then have "finite (UNIV :: string set)"
    using inj by (rule finite_imageD)
  then show False
    using infinite_UNIV_listI by blast
qed

text \<open>
  Hence some valid record stays verified after its data is replaced by another string.
\<close>

lemma tampered_data_verified:
  "\<exists>d d'. d \<noteq> d'
     \<and> verifyBlock2 [''block.json'' \<mapsto> JSONText (JObject
          [''hash'' \<mapsto> String (toHex (sha256_digest (d @ numberToString 0))),
           ''data'' \<mapsto> String d, ''nonce'' \<mapsto> Number 0])] ''block.json'' = Inr True
     \<and> verifyBlock2 [''block.json'' \<mapsto> JSONText (JObject
          [''hash'' \<mapsto> String (toHex (sha256_digest (d @ numberToString 0))),
           ''data'' \<mapsto> String d', ''nonce'' \<mapsto> Number 0])] ''block.json'' = Inr True"
proof -
  obtain d d' where "d \<noteq> d'"
    "sha256_digest (d @ numberToString 0) = sha256_digest (d' @ numberToString 0)"
    using digest_collision [of "numberToString 0"] by blast
  then show ?thesis
    by (intro exI [of _ d] exI [of _ d'])
      (simp add: verifyBlock2_def verifyBlock2_try_def readFileSync_def)
qed

section \<open>Tampering with a valid record\<close>

text \<open>
  Claim C5, as stated, fails: in a valid record, putting the string \<open>10\<close> in the
  place of the number 10 as nonce changes the field and not the message, and the
  record is still verified.
\<close>

theorem verifyBlock_tamper_counterexample:
  "verifyBlock [''block.json'' \<mapsto> JSONText (JObject
        [''hash'' \<mapsto> String ''c24c8f7af4ec33ddb16760d6f35398b0986b97a94e29883905300a901570253d'',
         ''data'' \<mapsto> String ''a'', ''nonce'' \<mapsto> Number 10,
         ''timestamp'' \<mapsto> Number 1])] ''block.json''
     = Inr True
   \<and> verifyBlock [''block.json'' \<mapsto> JSONText (JObject
        [''hash'' \<mapsto> String ''c24c8f7af4ec33ddb16760d6f35398b0986b97a94e29883905300a901570253d'',
         ''data'' \<mapsto> String ''a'', ''nonce'' \<mapsto> String ''10'',
         ''timestamp'' \<mapsto> Number 1])] ''block.json''
     = Inr True
   \<and> verifyBlock2 [''block.json'' \<mapsto> JSONText (JObject
        [''hash'' \<mapsto> String ''e80fb65ac70384bd8bab0358d60b7cbe96de5b2de7c095e0d8695852e9c673af'',
         ''data'' \<mapsto> String ''a'', ''nonce'' \<mapsto> Number 10])] ''block.json''
     = Inr True
   \<and> verifyBlock2 [''block.json'' \<mapsto> JSONText (JObject
        [''hash'' \<mapsto> String ''e80fb65ac70384bd8bab0358d60b7cbe96de5b2de7c095e0d8695852e9c673af'',
         ''data'' \<mapsto> String ''a'', ''nonce'' \<mapsto> String ''10''])] ''block.json''
     = Inr True
   \<and> Number 10 \<noteq> String ''10''"
  by (simp add: verifyBlock_def verifyBlock_try_def verifyBlock2_def verifyBlock2_try_def
      readFileSync_def numberToString_1 numberToString_10 hex_a10 hex_a110)

text \<open>
  Claim C5, amended: in a valid record (a string as hash, a string as data, integers up
  to \<open>2 ^ 53\<close> in magnitude as nonce and time stamp), replacing the hash by any other
  value makes \<^verbatim>\<open>verifyBlock\<close> return \<^verbatim>\<open>false\<close>; replacing the data by another
  string, or the nonce by another integer up to \<open>2 ^ 53\<close> in magnitude, changes the
  message that is hashed, and \<^verbatim>\<open>verifyBlock\<close> then returns \<^verbatim>\<open>true\<close> only if the
  digests of the two messages have the same hex text.
\<close>

theorem verifyBlock_tamper_detection:
  "(fs filePath = Some (JSONText (JObject m)) \<and> m ''hash'' = Some (String h)
      \<and> m ''data'' = Some (String d) \<and> m ''timestamp'' = Some (Number t)
      \<and> m ''nonce'' = Some (Number n) \<and> \<bar>t\<bar> \<le> 2 ^ 53 \<and> \<bar>n\<bar> \<le> 2 ^ 53
      \<and> verifyBlock fs filePath = Inr True
    \<longrightarrow>
      (v \<noteq> String h \<longrightarrow>
         verifyBlock (fs(filePath \<mapsto> JSONText (JObject (m(''hash'' \<mapsto> v))))) filePath
           = Inr False)
      \<and> (d' \<noteq> d \<longrightarrow>
         d' @ numberToString t @ numberToString n \<noteq> d @ numberToString t @ numberToString n
         \<and> verifyBlock (fs(filePath \<mapsto> JSONText (JObject (m(''data'' \<mapsto> String d')))))
               filePath
           = Inr (toHex (sha256_digest (d' @ numberToString t @ numberToString n))
                  = toHex (sha256_digest (d @ numberToString t @ numberToString n))))
      \<and> (n' \<noteq> n \<and> \<bar>n'\<bar> \<le> 2 ^ 53 \<longrightarrow>
         d @ numberToString t @ numberToString n' \<noteq> d @ numberToString t @ numberToString n
         \<and> verifyBlock (fs(filePath \<mapsto> JSONText (JObject (m(''nonce'' \<mapsto> Number n')))))
               filePath
           = Inr (toHex (sha256_digest (d @ numberToString t @ numberToString n'))
                  = toHex (sha256_digest (d @ numberToString t @ numberToString n)))))
   \<and> (fs filePath = Some (JSONText (JObject m)) \<and> m ''hash'' = Some (String h)
      \<and> m ''data'' = Some (String d) \<and> m ''nonce'' = Some (Number n)
      \<and> \<bar>n\<bar> \<le> 2 ^ 53 \<and> verifyBlock2 fs filePath = Inr True
    \<longrightarrow>
      (v \<noteq> String h \<longrightarrow>
         verifyBlock2 (fs(filePath \<mapsto> JSONText (JObject (m(''hash'' \<mapsto> v))))) filePath
           = Inr False)
      \<and> (d' \<noteq> d \<longrightarrow>
         d' @ numberToString n \<noteq> d @ numberToString n
         \<and> verifyBlock2 (fs(filePath \<mapsto> JSONText (JObject (m(''data'' \<mapsto> String d')))))
               filePath
           = Inr (toHex (sha256_digest (d' @ numberToString n))
                  = toHex (sha256_digest (d @ numberToString n))))
      \<and> (n' \<noteq> n \<and> \<bar>n'\<bar> \<le> 2 ^ 53 \<longrightarrow>
         d @ numberToString n' \<noteq> d @ numberToString n
         \<and> verifyBlock2 (fs(filePath \<mapsto> JSONText (JObject (m(''nonce'' \<mapsto> Number n')))))
               filePath
           = Inr (toHex (sha256_digest (d @ numberToString n'))
                  = toHex (sha256_digest (d @ numberToString n)))))"
proof (intro conjI impI; elim conjE)
  assume a: "fs filePath = Some (JSONText (JObject m))" "m ''hash'' = Some (String h)"
    "m ''data'' = Some (String d)" "m ''timestamp'' = Some (Number t)"
    "m ''nonce'' = Some (Number n)" "verifyBlock fs filePath = Inr True"
  from a have h: "h = toHex (sha256_digest (d @ numberToString t @ numberToString n))"
    by (simp add: verifyBlock_record [of fs filePath m d t n] field_def)
  {
    assume "v \<noteq> String h"
    then show "verifyBlock (fs(filePath \<mapsto> JSONText (JObject (m(''hash'' \<mapsto> v))))) filePath
           = Inr False"
      using a(3-5) h
      by (simp add: verifyBlock_record [where m = "m(''hash'' \<mapsto> v)" and d = d and t = t and n = n]
          field_def strictEq_iff)
  next
    assume "d' \<noteq> d"
    then show "d' @ numberToString t @ numberToString n \<noteq> d @ numberToString t @ numberToString n"
      by simp
  next
    assume "d' \<noteq> d"
    show "verifyBlock (fs(filePath \<mapsto> JSONText (JObject (m(''data'' \<mapsto> String d')))))
               filePath
           = Inr (toHex (sha256_digest (d' @ numberToString t @ numberToString n))
                  = toHex (sha256_digest (d @ numberToString t @ numberToString n)))"
      using a(2,4,5) h
      by (simp add: verifyBlock_record [where m = "m(''data'' \<mapsto> String d')" and d = d' and t = t and n = n]
          field_def)
  next
    assume "n' \<noteq> n"
    then show "d @ numberToString t @ numberToString n' \<noteq> d @ numberToString t @ numberToString n"
      using numberToString_inj [of n' n] by auto
  next
    assume "n' \<noteq> n"
    show "verifyBlock (fs(filePath \<mapsto> JSONText (JObject (m(''nonce'' \<mapsto> Number n')))))
               filePath
           = Inr (toHex (sha256_digest (d @ numberToString t @ numberToString n'))
                  = toHex (sha256_digest (d @ numberToString t @ numberToString n)))"
      using a(2,3,4) h
      by (simp add: verifyBlock_record [where m = "m(''nonce'' \<mapsto> Number n')" and d = d and t = t and n = n']
          field_def)
  }
next
  assume a: "fs filePath = Some (JSONText (JObject m))" "m ''hash'' = Some (String h)"
    "m ''data'' = Some (String d)" "m ''nonce'' = Some (Number n)"
    "verifyBlock2 fs filePath = Inr True"
  from a have h: "h = toHex (sha256_digest (d @ numberToString n))"
    by (simp add: verifyBlock2_record [of fs filePath m d n] field_def)
  {
    assume "v \<noteq> String h"
    then show "verifyBlock2 (fs(filePath \<mapsto> JSONText (JObject (m(''hash'' \<mapsto> v))))) filePath
           = Inr False"
      using a(3,4) h
      by (simp add: verifyBlock2_record [where m = "m(''hash'' \<mapsto> v)" and d = d and n = n]
          field_def strictEq_iff)
  next
    assume "d' \<noteq> d"
    then show "d' @ numberToString n \<noteq> d @ numberToString n"
      by simp
  next
    assume "d' \<noteq> d"
    show "verifyBlock2 (fs(filePath \<mapsto> JSONText (JObject (m(''data'' \<mapsto> String d')))))
               filePath
           = Inr (toHex (sha256_digest (d' @ numberToString n))
                  = toHex (sha256_digest (d @ numberToString n)))"
      using a(2,4) h
      by (simp add: verifyBlock2_record [where m = "m(''data'' \<mapsto> String d')" and d = d' and n = n]
          field_def)
  next
    assume "n' \<noteq> n"
    then show "d @ numberToString n' \<noteq> d @ numberToString n"
      using numberToString_inj [of n' n] by auto
  next
    assume "n' \<noteq> n"
    show "verifyBlock2 (fs(filePath \<mapsto> JSONText (JObject (m(''nonce'' \<mapsto> Number n')))))
               filePath
           = Inr (toHex (sha256_digest (d @ numberToString n'))
                  = toHex (sha256_digest (d @ numberToString n)))"
      using a(2,3) h
      by (simp add: verifyBlock2_record [where m = "m(''nonce'' \<mapsto> Number n')" and d = d and n = n']
          field_def)
  }
qed

theorem verifyBlock_tamper_detection_witness:
  "verifyBlock [''block.json'' \<mapsto> JSONText (JObject
        [''hash'' \<mapsto> String ''c24c8f7af4ec33ddb16760d6f35398b0986b97a94e29883905300a901570253d'',
         ''data'' \<mapsto> String ''a'', ''nonce'' \<mapsto> Number 10,
         ''timestamp'' \<mapsto> Number 1])] ''block.json''
     = Inr True
   \<and> verifyBlock ([''block.json'' \<mapsto> JSONText (JObject
        [''hash'' \<mapsto> String ''c24c8f7af4ec33ddb16760d6f35398b0986b97a94e29883905300a901570253d'',
         ''data'' \<mapsto> String ''a'', ''nonce'' \<mapsto> Number 10,
         ''timestamp'' \<mapsto> Number 1])]
        (''block.json'' \<mapsto> JSONText (JObject
        ([''hash'' \<mapsto> String ''c24c8f7af4ec33ddb16760d6f35398b0986b97a94e29883905300a901570253d'',
         ''data'' \<mapsto> String ''a'', ''nonce'' \<mapsto> Number 10,
         ''timestamp'' \<mapsto> Number 1]
         (''hash'' \<mapsto> String ''00''))))) ''block.json''
     = Inr False
   \<and> verifyBlock ([''block.json'' \<mapsto> JSONText (JObject
        [''hash'' \<mapsto> String ''c24c8f7af4ec33ddb16760d6f35398b0986b97a94e29883905300a901570253d'',
         ''data'' \<mapsto> String ''a'', ''nonce'' \<mapsto> Number 10,
         ''timestamp'' \<mapsto> Number 1])]
        (''block.json'' \<mapsto> JSONText (JObject
        ([''hash'' \<mapsto> String ''c24c8f7af4ec33ddb16760d6f35398b0986b97a94e29883905300a901570253d'',
         ''data'' \<mapsto> String ''a'', ''nonce'' \<mapsto> Number 10,
         ''timestamp'' \<mapsto> Number 1]
         (''data'' \<mapsto> String ''b''))))) ''block.json''
     = Inr False
   \<and> verifyBlock ([''block.json'' \<mapsto> JSONText (JObject
        [''hash'' \<mapsto> String ''c24c8f7af4ec33ddb16760d6f35398b0986b97a94e29883905300a901570253d'',
         ''data'' \<mapsto> String ''a'', ''nonce'' \<mapsto> Number 10,
         ''timestamp'' \<mapsto> Number 1])]
        (''block.json'' \<mapsto> JSONText (JObject
        ([''hash'' \<mapsto> String ''c24c8f7af4ec33ddb16760d6f35398b0986b97a94e29883905300a901570253d'',
         ''data'' \<mapsto> String ''a'', ''nonce'' \<mapsto> Number 10,
         ''timestamp'' \<mapsto> Number 1]
         (''nonce'' \<mapsto> Number 11))))) ''block.json''
     = Inr False
   \<and> verifyBlock2 [''block.json'' \<mapsto> JSONText (JObject
        [''hash'' \<mapsto> String ''e80fb65ac70384bd8bab0358d60b7cbe96de5b2de7c095e0d8695852e9c673af'',
         ''data'' \<mapsto> String ''a'', ''nonce'' \<mapsto> Number 10])] ''block.json''
     = Inr True
   \<and> verifyBlock2 ([''block.json'' \<mapsto> JSONText (JObject
        [''hash'' \<mapsto> String ''e80fb65ac70384bd8bab0358d60b7cbe96de5b2de7c095e0d8695852e9c673af'',
         ''data'' \<mapsto> String ''a'', ''nonce'' \<mapsto> Number 10])]
        (''block.json'' \<mapsto> JSONText (JObject
        ([''hash'' \<mapsto> String ''e80fb65ac70384bd8bab0358d60b7cbe96de5b2de7c095e0d8695852e9c673af'',
         ''data'' \<mapsto> String ''a'', ''nonce'' \<mapsto> Number 10]
         (''hash'' \<mapsto> String ''00''))))) ''block.json''
     = Inr False
   \<and> verifyBlock2 ([''block.json'' \<mapsto> JSONText (JObject
        [''hash'' \<mapsto> String ''e80fb65ac70384bd8bab0358d60b7cbe96de5b2de7c095e0d8695852e9c673af'',
         ''data'' \<mapsto> String ''a'', ''nonce'' \<mapsto> Number 10])]
        (''block.json'' \<mapsto> JSONText (JObject
        ([''hash'' \<mapsto> String ''e80fb65ac70384bd8bab0358d60b7cbe96de5b2de7c095e0d8695852e9c673af'',
         ''data'' \<mapsto> String ''a'', ''nonce'' \<mapsto> Number 10]
         (''data'' \<mapsto> String ''b''))))) ''block.json''
     = Inr False
   \<and> verifyBlock2 ([''block.json'' \<mapsto> JSONText (JObject
        [''hash'' \<mapsto> String ''e80fb65ac70384bd8bab0358d60b7cbe96de5b2de7c095e0d8695852e9c673af'',
         ''data'' \<mapsto> String ''a'', ''nonce'' \<mapsto> Number 10])]
        (''block.json'' \<mapsto> JSONText (JObject
        ([''hash'' \<mapsto> String ''e80fb65ac70384bd8bab0358d60b7cbe96de5b2de7c095e0d8695852e9c673af'',
         ''data'' \<mapsto> String ''a'', ''nonce'' \<mapsto> Number 10]
         (''nonce'' \<mapsto> Number 11))))) ''block.json''
     = Inr False"
  using verifyBlock_tamper_detection
      [where fs = "[''block.json'' \<mapsto> JSONText (JObject
        [''hash'' \<mapsto> String ''c24c8f7af4ec33ddb16760d6f35398b0986b97a94e29883905300a901570253d'',
         ''data'' \<mapsto> String ''a'', ''nonce'' \<mapsto> Number 10,
         ''timestamp'' \<mapsto> Number 1])]"
        and filePath = "''block.json''"
        and m = "[''hash'' \<mapsto> String ''c24c8f7af4ec33ddb16760d6f35398b0986b97a94e29883905300a901570253d'',
         ''data'' \<mapsto> String ''a'', ''nonce'' \<mapsto> Number 10,
         ''timestamp'' \<mapsto> Number 1]"
        and h = "''c24c8f7af4ec33ddb16760d6f35398b0986b97a94e29883905300a901570253d''"
        and d = "''a''" and t = 1 and n = 10 and d' = "''b''" and n' = 11
        and v = "String ''00''"]
    verifyBlock_tamper_detection
      [where fs = "[''block.json'' \<mapsto> JSONText (JObject
        [''hash'' \<mapsto> String ''e80fb65ac70384bd8bab0358d60b7cbe96de5b2de7c095e0d8695852e9c673af'',
         ''data'' \<mapsto> String ''a'', ''nonce'' \<mapsto> Number 10])]"
        and filePath = "''block.json''"
        and m = "[''hash'' \<mapsto> String ''e80fb65ac70384bd8bab0358d60b7cbe96de5b2de7c095e0d8695852e9c673af'',
         ''data'' \<mapsto> String ''a'', ''nonce'' \<mapsto> Number 10]"
        and h = "''e80fb65ac70384bd8bab0358d60b7cbe96de5b2de7c095e0d8695852e9c673af''"
        and d = "''a''" and n = 10 and d' = "''b''" and n' = 11
        and v = "String ''00''"]
    verifyBlock_a110 verifyBlock2_a10
  by (simp add: numberToString_1 numberToString_10 numberToString_11 hex_a10 hex_a110
      hex_b10 hex_a11 hex_b110 hex_a111)

end
